theory Spec2Isabelle
  imports Complex_Main "HOL-Library.Multiset" "HOL-Library.Char_ord" "HOL-Library.List_Lexorder"
    "HOL-Library.Sublist"
begin

section \<open>Python values used by \<open>BFAIR/thermo/io.py\<close>\<close>

text \<open>
  An exception is a value. \<open>ValueError\<close>, \<open>KeyError\<close> and \<open>AttributeError\<close> are the
  classes that \<open>io.py\<close> and the container lookups it uses raise themselves; \<open>Raised e\<close>
  is an exception object \<open>e\<close> that came out of a call into \<open>cobra\<close>, \<open>pytfa\<close> or
  \<open>optlang\<close>, carried as it is.
\<close>

datatype 'e exn = ValueError string | KeyError string | AttributeError string | Raised 'e

text \<open>
  A \<open>cobra\<close> reaction with its \<open>bounds\<close> property, an \<open>optlang\<close> variable with its
  two bounds, and a \<open>pytfa\<close> log-concentration variable, which wraps an \<open>optlang\<close>
  variable. The numbers of the bound tables are never computed with, only stored, so their
  type \<open>'n\<close> is left open.
\<close>

record 'n reaction =
  bounds :: "'n \<times> 'n"

record 'n optlang_variable =
  var_lb :: 'n
  var_ub :: 'n

record 'n log_concentration_variable =
  variable :: "'n optlang_variable"

text \<open>A \<open>DictList\<close> is looked up by identifier: a map from identifiers to objects.\<close>

type_synonym 'a dictlist = "string \<rightharpoonup> 'a"

definition has_id :: "'a dictlist \<Rightarrow> string \<Rightarrow> bool" where
  "has_id d i = (d i \<noteq> None)"

definition get_by_id :: "'a dictlist \<Rightarrow> string \<Rightarrow> 'e exn + 'a" where
  "get_by_id d i = (case d i of None \<Rightarrow> Inl (KeyError i) | Some x \<Rightarrow> Inr x)"

record 'n cobra_model =
  cobra_reactions :: "'n reaction dictlist"

datatype presolve_setting = Presolve_auto | Presolve bool

text \<open>
  The solver object of a model: \<open>solver.interface.__name__\<close>,
  \<open>solver.problem.Params.NumericFocus\<close> (\<open>None\<close> while nothing has stored it),
  \<open>solver.configuration.tolerances.feasibility\<close> and \<open>solver.configuration.presolve\<close>.
  The tolerance is the number its decimal literal denotes.
\<close>

record solver_object =
  interface_name :: string
  Params_NumericFocus :: "int option"
  tolerances_feasibility :: real
  configuration_presolve :: presolve_setting

record 'n thermo_model =
  name :: string
  solver :: solver_object
  reactions :: "'n reaction dictlist"
  parent :: "'n cobra_model"
  compartments :: "string list"
  log_concentration :: "'n log_concentration_variable dictlist"

text \<open>
  The logging registry: the handlers of every named logger. A handler is a
  \<open>logging.FileHandler\<close> or not, and has a level.
\<close>

record log_handler =
  is_FileHandler :: bool
  level :: nat

type_synonym logging = "string \<Rightarrow> log_handler list"

definition logging_ERROR :: nat where
  "logging_ERROR = 40"

section \<open>The calls into the libraries and the file system\<close>

text \<open>
  Everything \<open>io.py\<close> imports is a parameter: a call either raises (\<open>Inl\<close>) or returns.
  \<open>static_file\<close> is \<open>static.__file__\<close>. The two bound setters of \<open>cobra\<close> and
  \<open>optlang\<close> store the pair they are given unless the library refuses it; the refusal
  is the parameter.
\<close>

record ('td, 'lex, 'cd, 'e, 'n) library =
  static_file :: string
  glob :: "string \<Rightarrow> string list"
  get_bistream_logger :: "string \<Rightarrow> logging \<Rightarrow> 'e + logging"
  load_json_model :: "string \<Rightarrow> 'e + 'n cobra_model"
  load_thermoDB :: "string \<Rightarrow> 'e + 'td"
  read_lexicon :: "string \<Rightarrow> 'e + 'lex"
  read_compartment_data :: "string \<Rightarrow> 'e + 'cd"
  ThermoModel :: "'td \<Rightarrow> 'n cobra_model \<Rightarrow> 'e + 'n thermo_model"
  annotate_from_lexicon :: "'n thermo_model \<Rightarrow> 'lex \<Rightarrow> 'e + 'n thermo_model"
  apply_compartment_data :: "'n thermo_model \<Rightarrow> 'cd \<Rightarrow> 'e + 'n thermo_model"
  prepare :: "'n thermo_model \<Rightarrow> 'e + 'n thermo_model"
  convert :: "'n thermo_model \<Rightarrow> bool \<Rightarrow> 'e + 'n thermo_model"
  reaction_bounds_refused :: "'n reaction \<Rightarrow> 'n \<Rightarrow> 'n \<Rightarrow> 'e option"
  variable_bounds_refused :: "'n optlang_variable \<Rightarrow> 'n \<Rightarrow> 'n \<Rightarrow> 'e option"

definition raised :: "'e + 'a \<Rightarrow> 'e exn + 'a" where
  "raised r = (case r of Inl e \<Rightarrow> Inl (Raised e) | Inr x \<Rightarrow> Inr x)"

section \<open>\<open>os.path\<close> on POSIX and \<open>str.split\<close>\<close>

definition sep :: char where
  "sep = CHR ''/''"

definition os_path_join :: "string \<Rightarrow> string \<Rightarrow> string" where
  "os_path_join a b =
     (if b \<noteq> [] \<and> hd b = sep then b
      else if a = [] \<or> last a = sep then a @ b
      else a @ [sep] @ b)"

text \<open>\<open>s.rfind(c)\<close>: the last index of \<open>c\<close> in \<open>s\<close>, or \<open>-1\<close>.\<close>

definition rfind :: "string \<Rightarrow> char \<Rightarrow> int" where
  "rfind s c =
     (case filter (\<lambda>i. s ! i = c) (rev [0..<length s]) of
        [] \<Rightarrow> - 1
      | i # _ \<Rightarrow> int i)"

definition os_path_basename :: "string \<Rightarrow> string" where
  "os_path_basename p = (let i = rfind p sep + 1 in drop (nat i) p)"

definition rstrip :: "char \<Rightarrow> string \<Rightarrow> string" where
  "rstrip c s = rev (dropWhile (\<lambda>x. x = c) (rev s))"

definition os_path_dirname :: "string \<Rightarrow> string" where
  "os_path_dirname p =
     (let i = rfind p sep + 1;
          head = take (nat i) p
      in if head \<noteq> [] \<and> head \<noteq> replicate (length head) sep then rstrip sep head
         else head)"

text \<open>\<open>s.split(c)\<close> for a one-character separator: never the empty list.\<close>

fun str_split :: "string \<Rightarrow> char \<Rightarrow> string list" where
  "str_split [] c = [[]]"
| "str_split (x # xs) c =
     (if x = c then [] # str_split xs c
      else (case str_split xs c of
              [] \<Rightarrow> [[x]]
            | piece # pieces \<Rightarrow> (x # piece) # pieces))"

section \<open>\<open>io.py\<close>: paths, loading, model creation\<close>

definition path :: "('td, 'lex, 'cd, 'e, 'n) library \<Rightarrow> string \<Rightarrow> string" where
  "path L filename = os_path_join (os_path_dirname (static_file L)) filename"

definition silence_pytfa ::
  "('td, 'lex, 'cd, 'e, 'n) library \<Rightarrow> string \<Rightarrow> logging \<Rightarrow> 'e exn + logging" where
  "silence_pytfa L logger_name lg =
     (case raised (get_bistream_logger L logger_name lg) of
        Inl e \<Rightarrow> Inl e
      | Inr lg' \<Rightarrow>
          Inr (lg'(logger_name :=
                 map (\<lambda>handler. if \<not> is_FileHandler handler
                                 then handler\<lparr>level := logging_ERROR\<rparr>
                                 else handler)
                     (lg' logger_name))))"

definition load_cbm ::
  "('td, 'lex, 'cd, 'e, 'n) library \<Rightarrow> string \<Rightarrow> 'e exn + 'n cobra_model" where
  "load_cbm L model_name = raised (load_json_model L (path L (model_name @ ''.json'')))"

definition load_data ::
  "('td, 'lex, 'cd, 'e, 'n) library \<Rightarrow> string \<Rightarrow> 'e exn + ('td \<times> 'lex \<times> 'cd)" where
  "load_data L model_name =
     (case raised (load_thermoDB L (path L ''thermo_data.thermodb'')) of
        Inl e \<Rightarrow> Inl e
      | Inr thermo_data \<Rightarrow>
     (case raised (read_lexicon L (path L (os_path_join model_name ''lexicon.csv''))) of
        Inl e \<Rightarrow> Inl e
      | Inr lexicon \<Rightarrow>
     (case raised (read_compartment_data L
                     (path L (os_path_join model_name ''compartment_data.json''))) of
        Inl e \<Rightarrow> Inl e
      | Inr compartment_data \<Rightarrow> Inr (thermo_data, lexicon, compartment_data))))"

definition create_model ::
  "('td, 'lex, 'cd, 'e, 'n) library \<Rightarrow> string \<Rightarrow> 'td option \<Rightarrow> 'lex option \<Rightarrow> 'cd option
     \<Rightarrow> logging \<Rightarrow> 'e exn + ('n thermo_model \<times> logging)" where
  "create_model L model_name thermo_data lexicon compartment_data lg =
     (let data_is_none = [thermo_data = None, lexicon = None, compartment_data = None]
      in case (if list_all (\<lambda>b. b) data_is_none then load_data L model_name
               else if list_ex (\<lambda>b. b) data_is_none
                    then Inl (ValueError ''Not all required data supplied.'')
               else Inr (the thermo_data, the lexicon, the compartment_data)) of
        Inl e \<Rightarrow> Inl e
      | Inr (thermo_data, lexicon, compartment_data) \<Rightarrow>
     (case silence_pytfa L ''thermomodel_None'' lg of
        Inl e \<Rightarrow> Inl e
      | Inr lg \<Rightarrow>
     (case silence_pytfa L (''thermomodel_'' @ model_name) lg of
        Inl e \<Rightarrow> Inl e
      | Inr lg \<Rightarrow>
     (case load_cbm L model_name of
        Inl e \<Rightarrow> Inl e
      | Inr cmodel \<Rightarrow>
     (case raised (ThermoModel L thermo_data cmodel) of
        Inl e \<Rightarrow> Inl e
      | Inr tmodel \<Rightarrow>
     (case raised (annotate_from_lexicon L (tmodel\<lparr>name := model_name\<rparr>) lexicon) of
        Inl e \<Rightarrow> Inl e
      | Inr tmodel \<Rightarrow>
     (case raised (apply_compartment_data L tmodel compartment_data) of
        Inl e \<Rightarrow> Inl e
      | Inr tmodel \<Rightarrow>
     (let s = solver tmodel;
          s = (if interface_name s = ''optlang.gurobi_interface''
               then s\<lparr>Params_NumericFocus := Some 3\<rparr> else s);
          s = s\<lparr>tolerances_feasibility := 1 / 10 ^ 9\<rparr>;
          s = s\<lparr>configuration_presolve := Presolve True\<rparr>
      in case raised (prepare L (tmodel\<lparr>solver := s\<rparr>)) of
        Inl e \<Rightarrow> Inl e
      | Inr tmodel \<Rightarrow>
     (case raised (convert L tmodel False) of
        Inl e \<Rightarrow> Inl e
      | Inr tmodel \<Rightarrow> Inr (tmodel, lg))))))))))"

text \<open>
  What the specification says of \<open>load_data\<close>, in its words: the three inputs come from
  fixed files under the static folder, \<open>thermo_data.thermodb\<close>,
  \<open><model_name>/lexicon.csv\<close> and \<open><model_name>/compartment_data.json\<close>, in that order.
  The file of a name in a folder is the folder's name, a slash unless that name is empty
  or already ends in one, and the file's name; a file under the static folder is the
  file of its relative name in that folder.
\<close>

definition static_folder :: "('td, 'lex, 'cd, 'e, 'n) library \<Rightarrow> string" where
  "static_folder L = os_path_dirname (static_file L)"

definition spec_file_in :: "string \<Rightarrow> string \<Rightarrow> string" where
  "spec_file_in folder file_name =
     (if folder = [] \<or> last folder = CHR ''/'' then folder @ file_name
      else folder @ ''/'' @ file_name)"

definition spec_under_static_folder ::
  "('td, 'lex, 'cd, 'e, 'n) library \<Rightarrow> string \<Rightarrow> string" where
  "spec_under_static_folder L relative = spec_file_in (static_folder L) relative"

definition spec_load_data ::
  "('td, 'lex, 'cd, 'e, 'n) library \<Rightarrow> string \<Rightarrow> 'e exn + ('td \<times> 'lex \<times> 'cd)" where
  "spec_load_data L model_name =
     (case load_thermoDB L (spec_under_static_folder L ''thermo_data.thermodb'') of
        Inl e \<Rightarrow> Inl (Raised e)
      | Inr thermo_data \<Rightarrow>
     (case read_lexicon L
             (spec_under_static_folder L (spec_file_in model_name ''lexicon.csv'')) of
        Inl e \<Rightarrow> Inl (Raised e)
      | Inr lexicon \<Rightarrow>
     (case read_compartment_data L
             (spec_under_static_folder L (spec_file_in model_name ''compartment_data.json'')) of
        Inl e \<Rightarrow> Inl (Raised e)
      | Inr compartment_data \<Rightarrow> Inr (thermo_data, lexicon, compartment_data))))"

section \<open>\<open>io.py\<close>: adjusting bounds\<close>

text \<open>
  The stores \<open>reaction.bounds = lb, ub\<close> and \<open>variable.set_bounds(lb, ub)\<close>: the
  library raises, or the object holds the pair.
\<close>

definition set_reaction_bounds ::
  "('td, 'lex, 'cd, 'e, 'n) library \<Rightarrow> 'n reaction \<Rightarrow> 'n \<Rightarrow> 'n \<Rightarrow> 'e exn + 'n reaction" where
  "set_reaction_bounds L r lb ub =
     (case reaction_bounds_refused L r lb ub of
        Some e \<Rightarrow> Inl (Raised e)
      | None \<Rightarrow> Inr (r\<lparr>bounds := (lb, ub)\<rparr>))"

definition set_bounds ::
  "('td, 'lex, 'cd, 'e, 'n) library \<Rightarrow> 'n optlang_variable \<Rightarrow> 'n \<Rightarrow> 'n
     \<Rightarrow> 'e exn + 'n optlang_variable" where
  "set_bounds L v lb ub =
     (case variable_bounds_refused L v lb ub of
        Some e \<Rightarrow> Inl (Raised e)
      | None \<Rightarrow> Inr (v\<lparr>var_lb := lb, var_ub := ub\<rparr>))"

text \<open>
  A bounds table is a data frame with the columns \<open>id\<close>, \<open>lb\<close> and \<open>ub\<close>; the
  \<open>zip\<close> of the three columns is the list of its rows.
\<close>

type_synonym 'n bounds_table = "(string \<times> 'n \<times> 'n) list"

text \<open>The first loop of \<open>adjust_model\<close> (lines 165 to 168), over the rows of \<open>rxn_bounds\<close>.\<close>

fun adjust_model_reactions ::
  "('td, 'lex, 'cd, 'e, 'n) library \<Rightarrow> 'n thermo_model \<Rightarrow> 'n bounds_table
     \<Rightarrow> 'e exn + 'n thermo_model" where
  "adjust_model_reactions L tmodel [] = Inr tmodel"
| "adjust_model_reactions L tmodel ((rxn_id, lb, ub) # rows) =
     (if has_id (reactions tmodel) rxn_id then
        (case get_by_id (cobra_reactions (parent tmodel)) rxn_id of
           Inl e \<Rightarrow> Inl e
         | Inr r \<Rightarrow>
        (case set_reaction_bounds L r lb ub of
           Inl e \<Rightarrow> Inl e
         | Inr r \<Rightarrow>
        (let tmodel = tmodel\<lparr>parent :=
                        (parent tmodel)\<lparr>cobra_reactions :=
                           (cobra_reactions (parent tmodel))(rxn_id \<mapsto> r)\<rparr>\<rparr>
         in case get_by_id (reactions tmodel) rxn_id of
           Inl e \<Rightarrow> Inl e
         | Inr r \<Rightarrow>
        (case set_reaction_bounds L r lb ub of
           Inl e \<Rightarrow> Inl e
         | Inr r \<Rightarrow>
             adjust_model_reactions L
               (tmodel\<lparr>reactions := (reactions tmodel)(rxn_id \<mapsto> r)\<rparr>) rows))))
      else adjust_model_reactions L tmodel rows)"

text \<open>The inner loop (lines 171 to 174), over the compartments, for one row.\<close>

fun adjust_model_compartments ::
  "('td, 'lex, 'cd, 'e, 'n) library \<Rightarrow> 'n thermo_model \<Rightarrow> string \<Rightarrow> 'n \<Rightarrow> 'n \<Rightarrow> string list
     \<Rightarrow> 'e exn + 'n thermo_model" where
  "adjust_model_compartments L tmodel met lb ub [] = Inr tmodel"
| "adjust_model_compartments L tmodel met lb ub (compartment # cs) =
     (let met_id = met @ ''_'' @ compartment
      in if has_id (log_concentration tmodel) met_id then
           (case get_by_id (log_concentration tmodel) met_id of
              Inl e \<Rightarrow> Inl e
            | Inr lc \<Rightarrow>
           (case set_bounds L (variable lc) lb ub of
              Inl e \<Rightarrow> Inl e
            | Inr v \<Rightarrow>
                adjust_model_compartments L
                  (tmodel\<lparr>log_concentration :=
                     (log_concentration tmodel)(met_id \<mapsto> lc\<lparr>variable := v\<rparr>)\<rparr>)
                  met lb ub cs))
         else adjust_model_compartments L tmodel met lb ub cs)"

text \<open>The second loop (lines 170 to 174), over the rows of \<open>lc_bounds\<close>.\<close>

fun adjust_model_log_concentrations ::
  "('td, 'lex, 'cd, 'e, 'n) library \<Rightarrow> 'n thermo_model \<Rightarrow> 'n bounds_table
     \<Rightarrow> 'e exn + 'n thermo_model" where
  "adjust_model_log_concentrations L tmodel [] = Inr tmodel"
| "adjust_model_log_concentrations L tmodel ((met, lb, ub) # rows) =
     (case adjust_model_compartments L tmodel met lb ub (compartments tmodel) of
        Inl e \<Rightarrow> Inl e
      | Inr tmodel \<Rightarrow> adjust_model_log_concentrations L tmodel rows)"

text \<open>\<open>adjust_model\<close> changes \<open>tmodel\<close> in place; the model returns the changed object.\<close>

definition adjust_model ::
  "('td, 'lex, 'cd, 'e, 'n) library \<Rightarrow> 'n thermo_model \<Rightarrow> 'n bounds_table \<Rightarrow> 'n bounds_table
     \<Rightarrow> 'e exn + 'n thermo_model" where
  "adjust_model L tmodel rxn_bounds lc_bounds =
     (case adjust_model_reactions L tmodel rxn_bounds of
        Inl e \<Rightarrow> Inl e
      | Inr tmodel \<Rightarrow> adjust_model_log_concentrations L tmodel lc_bounds)"

section \<open>\<open>io.py\<close>: the model factory\<close>

text \<open>
  What an attribute of the factory object can hold: a model made on demand, the list
  \<open>_list\<close>, the documentation string, or something the class or \<open>object\<close> provides.
\<close>

datatype ('n, 'a) attribute =
  Model "'n thermo_model" | Names "string list" | Doc string | Inherited 'a

text \<open>
  The one instance: \<open>self._list\<close> from \<open>__init__\<close>, the \<open>__doc__\<close> that line 178
  stores on it, and the attributes that normal lookup finds on its class and on
  \<open>object\<close> (methods, \<open>__class__\<close> and so on).
\<close>

record 'a ModelFactory =
  list_attr :: "string list"
  doc_attr :: "string option"
  class_attrs :: "string \<rightharpoonup> 'a"

definition ModelFactory_init ::
  "('td, 'lex, 'cd, 'e, 'n) library \<Rightarrow> (string \<rightharpoonup> 'a) \<Rightarrow> 'a ModelFactory" where
  "ModelFactory_init L cls =
     \<lparr>list_attr = map (\<lambda>p. hd (str_split (os_path_basename p) CHR ''.''))
                       (glob L (path L ''*.json'')),
      doc_attr = None,
      class_attrs = cls\<rparr>"

definition ModelFactory_dir :: "'a ModelFactory \<Rightarrow> string list" where
  "ModelFactory_dir self = list_attr self"

text \<open>
  \<open>object.__getattribute__\<close>, the normal lookup: the instance's own attributes, then
  the class's, else \<open>AttributeError\<close>.
\<close>

definition object_getattribute ::
  "'a ModelFactory \<Rightarrow> string \<Rightarrow> 'e exn + ('n, 'a) attribute" where
  "object_getattribute self item =
     (if item = ''_list'' then Inr (Names (list_attr self))
      else case (if item = ''__doc__'' then doc_attr self else None) of
             Some d \<Rightarrow> Inr (Doc d)
           | None \<Rightarrow>
               (case class_attrs self item of
                  Some a \<Rightarrow> Inr (Inherited a)
                | None \<Rightarrow> Inl (AttributeError item)))"

definition ModelFactory_getattr ::
  "('td, 'lex, 'cd, 'e, 'n) library \<Rightarrow> 'a ModelFactory \<Rightarrow> string \<Rightarrow> logging
     \<Rightarrow> 'e exn + (('n, 'a) attribute \<times> logging)" where
  "ModelFactory_getattr L self item lg =
     (if item \<in> set (list_attr self) then
        (case create_model L item None None None lg of
           Inl e \<Rightarrow> Inl e
         | Inr (tmodel, lg) \<Rightarrow> Inr (Model tmodel, lg))
      else (case object_getattribute self item of
              Inl e \<Rightarrow> Inl e
            | Inr a \<Rightarrow> Inr (a, lg)))"

text \<open>
  Python's attribute access \<open>self.item\<close>: the normal lookup first, and \<open>__getattr__\<close>
  only when that raised \<open>AttributeError\<close>. The built-in \<open>dir\<close> sorts what
  \<open>__dir__\<close> returns.
\<close>

definition getattr_builtin ::
  "('td, 'lex, 'cd, 'e, 'n) library \<Rightarrow> 'a ModelFactory \<Rightarrow> string \<Rightarrow> logging
     \<Rightarrow> 'e exn + (('n, 'a) attribute \<times> logging)" where
  "getattr_builtin L self item lg =
     (case object_getattribute self item of
        Inr a \<Rightarrow> Inr (a, lg)
      | Inl (AttributeError _) \<Rightarrow> ModelFactory_getattr L self item lg
      | Inl e \<Rightarrow> Inl e)"

definition dir_builtin :: "'a ModelFactory \<Rightarrow> string list" where
  "dir_builtin self = sort (ModelFactory_dir self)"

text \<open>Lines 177 and 178: the instance, and its documentation string.\<close>

definition models ::
  "('td, 'lex, 'cd, 'e, 'n) library \<Rightarrow> (string \<rightharpoonup> 'a) \<Rightarrow> string \<Rightarrow> 'a ModelFactory" where
  "models L cls doc = (ModelFactory_init L cls)\<lparr>doc_attr := Some doc\<rparr>"

section \<open>\<open>generate_test_data.py\<close>\<close>

text \<open>
  The script is one straight line of calls. What it computes with are objects of pandas
  and of \<open>INCA_script_generator\<close> (type \<open>'d\<close>) and strings; its calls into pandas,
  \<open>INCA_script_generator\<close>, \<open>pickle\<close> and the file system are parameters, each
  raising or returning.
\<close>

datatype 'd pyobj = Obj 'd | Str string

record ('d, 'e) script_library =
  set_option :: "string \<Rightarrow> 'e option"
  open_file :: "string \<Rightarrow> string \<Rightarrow> 'e option"
  read_csv :: "string \<Rightarrow> 'e + 'd"
  limit_to_one_model :: "'d \<Rightarrow> string \<Rightarrow> string \<Rightarrow> 'e + 'd"
  limit_to_one_experiment :: "'d \<Rightarrow> string \<Rightarrow> string \<Rightarrow> 'e + 'd"
  initiate_MATLAB_script :: "'e + 'd"
  add_reactions_to_script :: "'d \<Rightarrow> 'd \<Rightarrow> string \<Rightarrow> 'e + ('d \<times> 'd)"
  initialize_model :: "'e + 'd"
  symmetrical_metabolites :: "'d \<Rightarrow> 'e + 'd"
  unbalanced_reactions :: "'d \<Rightarrow> 'e + 'd"
  add_reaction_parameters :: "'d \<Rightarrow> 'd \<Rightarrow> 'd \<Rightarrow> bool \<Rightarrow> 'e + 'd"
  verify_and_estimate :: "'e + 'd"
  add_experimental_parameters :: "'d \<Rightarrow> 'd \<Rightarrow> 'd \<Rightarrow> 'd \<Rightarrow> 'e + ('d \<times> 'd)"
  mapping :: "'d \<Rightarrow> 'd \<Rightarrow> 'e + 'd"
  script_generator :: "'d \<Rightarrow> 'd \<Rightarrow> string \<Rightarrow> 'd \<Rightarrow> 'd \<Rightarrow> 'd \<Rightarrow> 'd \<Rightarrow> 'e + 'd"
  runner_script_generator :: "string \<Rightarrow> int \<Rightarrow> 'e + 'd"
  pickle_dump :: "'d pyobj list \<Rightarrow> 'e option"
  close_file :: "'e option"

text \<open>
  What happens to the handle \<open>filehandler\<close>: it is opened on a path with a mode, a list
  of objects is dumped into it, it is closed.
\<close>

datatype 'd handle_event = Open string string | Dump "'d pyobj list" | Close

definition biomass_function :: string where
  "biomass_function = ''0.176*phe_DASH_L_c + 0.443*mlthf_c + 0.34*oaa_c + 0.326*lys_DASH_L_c + 33.247*atp_c + 0.205*ser_DASH_L_c + 0.129*g3p_c + 0.131*tyr_DASH_L_c + 0.051*pep_c + 0.146*met_DASH_L_c + 0.205*g6p_c + 0.087*akg_c + 0.25*glu_DASH_L_c + 0.25*gln_DASH_L_c + 0.754*r5p_c + 0.071*f6p_c + 0.083*pyr_c + 0.582*gly_c + 0.241*thr_DASH_L_c + 0.229*asp_DASH_L_c + 5.363*nadph_c + 0.087*cys_DASH_L_c + 0.619*3pg_c + 0.402*val_DASH_L_c + 0.488*ala_DASH_L_c + 0.276*ile_DASH_L_c + 0.229*asn_DASH_L_c + 0.09*his_DASH_L_c + 0.428*leu_DASH_L_c + 2.51*accoa_c + 0.281*arg_DASH_L_c + 0.21*pro_DASH_L_c + 0.054*trp_DASH_L_c -> 1.455*nadh_c + 39.68*Biomass_c''"

text \<open>
  A run of the script: the events on the handle in their order, and the exception that
  ended the run, if one did.
\<close>

definition generate_test_data ::
  "('d, 'e) script_library \<Rightarrow> 'd handle_event list \<times> 'e option" where
  "generate_test_data S =
     (case set_option S ''mode.chained_assignment'' of
        Some e \<Rightarrow> ([], Some e)
      | None \<Rightarrow>
     (case open_file S ''test_data.obj'' ''wb'' of
        Some e \<Rightarrow> ([], Some e)
      | None \<Rightarrow>
     (let opened = [Open ''test_data.obj'' ''wb'']
      in case read_csv S ''data_stage02_isotopomer_atomMappingReactions2.csv'' of
        Inl e \<Rightarrow> (opened, Some e)
      | Inr atomMappingReactions_data_I \<Rightarrow>
     (case read_csv S ''data_stage02_isotopomer_modelReactions.csv'' of
        Inl e \<Rightarrow> (opened, Some e)
      | Inr modelReaction_data_I \<Rightarrow>
     (case read_csv S ''data_stage02_isotopomer_atomMappingMetabolites.csv'' of
        Inl e \<Rightarrow> (opened, Some e)
      | Inr atomMappingMetabolite_data_I \<Rightarrow>
     (case read_csv S ''data_stage02_isotopomer_measuredFluxes.csv'' of
        Inl e \<Rightarrow> (opened, Some e)
      | Inr measuredFluxes_data_I \<Rightarrow>
     (case read_csv S ''data-1604345289079.csv'' of
        Inl e \<Rightarrow> (opened, Some e)
      | Inr experimentalMS_data_I \<Rightarrow>
     (case read_csv S ''data_stage02_isotopomer_tracers.csv'' of
        Inl e \<Rightarrow> (opened, Some e)
      | Inr tracer_I \<Rightarrow>
     (case limit_to_one_model S atomMappingReactions_data_I
             ''mapping_id'' ''ecoli_RL2013_02'' of
        Inl e \<Rightarrow> (opened, Some e)
      | Inr atomMappingReactions_data_I \<Rightarrow>
     (case limit_to_one_model S modelReaction_data_I ''model_id'' ''ecoli_RL2013_02'' of
        Inl e \<Rightarrow> (opened, Some e)
      | Inr modelReaction_data_I \<Rightarrow>
     (case limit_to_one_model S atomMappingMetabolite_data_I
             ''mapping_id'' ''ecoli_RL2013_02'' of
        Inl e \<Rightarrow> (opened, Some e)
      | Inr atomMappingMetabolite_data_I \<Rightarrow>
     (case limit_to_one_model S measuredFluxes_data_I ''model_id'' ''ecoli_RL2013_02'' of
        Inl e \<Rightarrow> (opened, Some e)
      | Inr measuredFluxes_data_I \<Rightarrow>
     (case limit_to_one_experiment S measuredFluxes_data_I
             ''experiment_id'' ''WTEColi_113C80_U13C20_01'' of
        Inl e \<Rightarrow> (opened, Some e)
      | Inr measuredFluxes_data_I \<Rightarrow>
     (case limit_to_one_experiment S experimentalMS_data_I
             ''experiment_id'' ''WTEColi_113C80_U13C20_01'' of
        Inl e \<Rightarrow> (opened, Some e)
      | Inr experimentalMS_data_I \<Rightarrow>
     (case limit_to_one_experiment S tracer_I
             ''experiment_id'' ''WTEColi_113C80_U13C20_01'' of
        Inl e \<Rightarrow> (opened, Some e)
      | Inr tracer_I \<Rightarrow>
     (case initiate_MATLAB_script S of
        Inl e \<Rightarrow> (opened, Some e)
      | Inr initiated_MATLAB_script \<Rightarrow>
     (case add_reactions_to_script S modelReaction_data_I atomMappingReactions_data_I
             biomass_function of
        Inl e \<Rightarrow> (opened, Some e)
      | Inr (model_reactions, model_rxn_ids) \<Rightarrow>
     (case initialize_model S of
        Inl e \<Rightarrow> (opened, Some e)
      | Inr initialized_model \<Rightarrow>
     (case symmetrical_metabolites S atomMappingMetabolite_data_I of
        Inl e \<Rightarrow> (opened, Some e)
      | Inr symmetrical_metabolites_script \<Rightarrow>
     (case unbalanced_reactions S atomMappingMetabolite_data_I of
        Inl e \<Rightarrow> (opened, Some e)
      | Inr unbalanced_reactions_script \<Rightarrow>
     (case add_reaction_parameters S modelReaction_data_I measuredFluxes_data_I
             model_rxn_ids True of
        Inl e \<Rightarrow> (opened, Some e)
      | Inr reaction_parameters \<Rightarrow>
     (case verify_and_estimate S of
        Inl e \<Rightarrow> (opened, Some e)
      | Inr verify_and_estimate_script \<Rightarrow>
     (case add_experimental_parameters S experimentalMS_data_I tracer_I
             measuredFluxes_data_I atomMappingMetabolite_data_I of
        Inl e \<Rightarrow> (opened, Some e)
      | Inr (experimental_parameters, fragments_used) \<Rightarrow>
     (case mapping S experimentalMS_data_I fragments_used of
        Inl e \<Rightarrow> (opened, Some e)
      | Inr mapping_script \<Rightarrow>
     (case script_generator S modelReaction_data_I atomMappingReactions_data_I
             biomass_function atomMappingMetabolite_data_I measuredFluxes_data_I
             experimentalMS_data_I tracer_I of
        Inl e \<Rightarrow> (opened, Some e)
      | Inr script \<Rightarrow>
     (case runner_script_generator S ''TestFile'' 10 of
        Inl e \<Rightarrow> (opened, Some e)
      | Inr runner \<Rightarrow>
     (let objects =
            [Obj modelReaction_data_I, Obj atomMappingReactions_data_I,
             Str biomass_function, Obj atomMappingMetabolite_data_I,
             Obj measuredFluxes_data_I, Obj experimentalMS_data_I, Obj tracer_I,
             Obj initiated_MATLAB_script, Obj model_reactions, Obj model_rxn_ids,
             Obj initialized_model, Obj symmetrical_metabolites_script,
             Obj unbalanced_reactions_script, Obj reaction_parameters,
             Obj verify_and_estimate_script, Obj experimental_parameters,
             Obj fragments_used, Obj mapping_script, Obj script, Obj runner]
      in case pickle_dump S objects of
        Some e \<Rightarrow> (opened, Some e)
      | None \<Rightarrow>
     (case close_file S of
        Some e \<Rightarrow> (opened @ [Dump objects], Some e)
      | None \<Rightarrow> (opened @ [Dump objects, Close], None)))))))))))))))))))))))))))))"

section \<open>A small installation\<close>

text \<open>
  A model with two reactions, two compartments and one log-concentration variable, and a
  library over a static folder \<open>/pkg/static\<close> that holds two model files. Its bound
  setters refuse a lower bound above the upper bound, as those of \<open>cobra\<close> and
  \<open>optlang\<close> do.
\<close>

definition example_model :: "int thermo_model" where
  "example_model =
     \<lparr>name = ''fresh'',
      solver = \<lparr>interface_name = ''optlang.glpk_interface'', Params_NumericFocus = None,
                tolerances_feasibility = 1 / 10 ^ 6,
                configuration_presolve = Presolve_auto\<rparr>,
      reactions = [''R1'' \<mapsto> \<lparr>bounds = (0, 10)\<rparr>, ''R2'' \<mapsto> \<lparr>bounds = (- 5, 5)\<rparr>],
      parent = \<lparr>cobra_reactions =
                  [''R1'' \<mapsto> \<lparr>bounds = (0, 10)\<rparr>, ''R2'' \<mapsto> \<lparr>bounds = (- 5, 5)\<rparr>]\<rparr>,
      compartments = [''c'', ''e''],
      log_concentration = [''atp_c'' \<mapsto> \<lparr>variable = \<lparr>var_lb = - 10, var_ub = 0\<rparr>\<rparr>]\<rparr>"

definition example_library :: "(nat, nat, nat, string, int) library" where
  "example_library =
     \<lparr>static_file = ''/pkg/static/__init__.py'',
      glob = (\<lambda>p. if p = ''/pkg/static/*.json''
                   then [''/pkg/static/small_ecoli.json'', ''/pkg/static/iJO1366.json'']
                   else []),
      get_bistream_logger =
        (\<lambda>n lg. Inr (lg(n := \<lparr>is_FileHandler = False, level = 10\<rparr>
                              # \<lparr>is_FileHandler = True, level = 10\<rparr> # lg n))),
      load_json_model =
        (\<lambda>p. if p = ''/pkg/static/small_ecoli.json'' then Inr (parent example_model)
              else Inl ''no such file''),
      load_thermoDB =
        (\<lambda>p. if p = ''/pkg/static/thermo_data.thermodb'' then Inr 1
              else Inl ''no such file''),
      read_lexicon =
        (\<lambda>p. if p = ''/pkg/static/small_ecoli/lexicon.csv'' then Inr 2
              else Inl ''no such file''),
      read_compartment_data =
        (\<lambda>p. if p = ''/pkg/static/small_ecoli/compartment_data.json'' then Inr 3
              else Inl ''no such file''),
      ThermoModel =
        (\<lambda>td cm. Inr (example_model\<lparr>reactions := cobra_reactions cm, parent := cm\<rparr>)),
      annotate_from_lexicon = (\<lambda>t lx. Inr t),
      apply_compartment_data = (\<lambda>t cd. Inr t),
      prepare = (\<lambda>t. Inr t),
      convert = (\<lambda>t verbose. Inr t),
      reaction_bounds_refused = (\<lambda>r lb ub. if ub < lb then Some ''lb > ub'' else None),
      variable_bounds_refused = (\<lambda>v lb ub. if ub < lb then Some ''lb > ub'' else None)\<rparr>"

definition no_handlers :: logging where
  "no_handlers = (\<lambda>n. [])"

text \<open>The same library, with a lexicon and compartment data lying outside the static folder.\<close>

definition outside_library :: "(nat, nat, nat, string, int) library" where
  "outside_library =
     example_library
       \<lparr>read_lexicon :=
          (\<lambda>p. if p = ''/tmp/m/lexicon.csv'' then Inr 7 else Inl ''no such file''),
        read_compartment_data :=
          (\<lambda>p. if p = ''/tmp/m/compartment_data.json'' then Inr 8
                else Inl ''no such file'')\<rparr>"

text \<open>The same library over a model whose solver interface is Gurobi's.\<close>

definition gurobi_library :: "(nat, nat, nat, string, int) library" where
  "gurobi_library =
     example_library
       \<lparr>ThermoModel :=
          (\<lambda>td cm. Inr (example_model
                          \<lparr>solver := (solver example_model)
                                       \<lparr>interface_name := ''optlang.gurobi_interface''\<rparr>,
                           reactions := cobra_reactions cm, parent := cm\<rparr>))\<rparr>"

text \<open>The same library over a static folder whose only model file is \<open>_list.json\<close>.\<close>

definition shadowing_library :: "(nat, nat, nat, string, int) library" where
  "shadowing_library =
     example_library\<lparr>glob := (\<lambda>p. if p = ''/pkg/static/*.json''
                                    then [''/pkg/static/_list.json''] else [])\<rparr>"

text \<open>
  The factory objects of the two installations, with a short documentation string; their
  class provides no further attribute.
\<close>

definition no_class_attrs :: "string \<rightharpoonup> unit" where
  "no_class_attrs = Map.empty"

definition example_factory :: "unit ModelFactory" where
  "example_factory = models example_library no_class_attrs ''A factory class''"

definition shadowed_factory :: "unit ModelFactory" where
  "shadowed_factory = models shadowing_library no_class_attrs ''A factory class''"

text \<open>
  What the specification says the factory lists: of each model file, the basename with the
  extension stripped at the first dot, that is, what follows the last slash, up to the
  first dot.
\<close>

definition spec_model_name :: "string \<Rightarrow> string" where
  "spec_model_name p =
     takeWhile (\<lambda>c. c \<noteq> CHR ''.'') (rev (takeWhile (\<lambda>c. c \<noteq> CHR ''/'') (rev p)))"

text \<open>
  Two environments for the script: one in which every call returns (reading a file gives
  its name, and limiting a table appends the column it was limited by), and one in which
  the input files are missing.
\<close>

definition fine_script_library :: "(string, string) script_library" where
  "fine_script_library =
     \<lparr>set_option = (\<lambda>option. None),
      open_file = (\<lambda>p mode. None),
      read_csv = (\<lambda>p. Inr p),
      limit_to_one_model = (\<lambda>d column v. Inr (d @ ''['' @ column @ '']'')),
      limit_to_one_experiment = (\<lambda>d column v. Inr (d @ ''['' @ column @ '']'')),
      initiate_MATLAB_script = Inr ''initiated'',
      add_reactions_to_script = (\<lambda>a b biomass. Inr (''reactions'', ''rxn_ids'')),
      initialize_model = Inr ''initialized'',
      symmetrical_metabolites = (\<lambda>d. Inr ''symmetrical''),
      unbalanced_reactions = (\<lambda>d. Inr ''None''),
      add_reaction_parameters = (\<lambda>a b c fluxes_present. Inr ''parameters''),
      verify_and_estimate = Inr ''verify'',
      add_experimental_parameters = (\<lambda>a b c d. Inr (''experimental'', ''fragments'')),
      mapping = (\<lambda>a b. Inr ''mapping''),
      script_generator = (\<lambda>a b biomass c d e f. Inr ''script''),
      runner_script_generator = (\<lambda>n n_estimates. Inr ''runner''),
      pickle_dump = (\<lambda>objects. None),
      close_file = None\<rparr>"

definition missing_csv_library :: "(string, string) script_library" where
  "missing_csv_library =
     fine_script_library\<lparr>read_csv := (\<lambda>p. Inl ''FileNotFoundError'')\<rparr>"

section \<open>Propagation of what a library call raises\<close>

lemma raised_simps [simp]:
  "raised (Inl e) = Inl (Raised e)" "raised (Inr x) = Inr x"
  by (simp_all add: raised_def)

lemma raised_eq_Inr [simp]: "raised r = Inr x \<longleftrightarrow> r = Inr x"
  by (cases r) simp_all

lemma raised_eq_Inl: "raised r = Inl x \<longleftrightarrow> (\<exists>e. r = Inl e \<and> x = Raised e)"
  by (cases r) auto

lemma raised_not_ValueError [simp]: "raised r \<noteq> Inl (ValueError msg)"
  by (cases r) simp_all

lemma silence_pytfa_not_ValueError [simp]: "silence_pytfa L n lg \<noteq> Inl (ValueError msg)"
  by (auto simp: silence_pytfa_def raised_eq_Inl split: sum.splits)

lemma load_cbm_not_ValueError [simp]: "load_cbm L n \<noteq> Inl (ValueError msg)"
  by (simp add: load_cbm_def)

lemma load_data_not_ValueError [simp]: "load_data L n \<noteq> Inl (ValueError msg)"
  by (auto simp: load_data_def raised_eq_Inl split: sum.splits)

section \<open>The argument check of \<open>create_model\<close>\<close>

lemma create_model_supplied_not_ValueError:
  "create_model L model_name (Some a) (Some b) (Some c) lg \<noteq> Inl (ValueError msg)"
  by (auto simp: create_model_def Let_def raised_eq_Inl split: sum.splits)

lemma create_model_all_None:
  "create_model L model_name None None None lg =
     (case load_data L model_name of
        Inl e \<Rightarrow> Inl e
      | Inr (td, lx, cd) \<Rightarrow> create_model L model_name (Some td) (Some lx) (Some cd) lg)"
  by (simp add: create_model_def split: sum.splits prod.splits)

lemma create_model_all_None_not_ValueError:
  "create_model L model_name None None None lg \<noteq> Inl (ValueError msg)"
  using load_data_not_ValueError [of L model_name msg]
  by (auto simp: create_model_all_None create_model_supplied_not_ValueError
           split: sum.splits prod.splits)

lemma create_model_mixed:
  "(a = None \<or> b = None \<or> c = None) \<Longrightarrow> \<not> (a = None \<and> b = None \<and> c = None) \<Longrightarrow>
   create_model L model_name a b c lg = Inl (ValueError ''Not all required data supplied.'')"
  by (cases a; cases b; cases c) (simp_all add: create_model_def)

text \<open>
  Claim C1. \<open>create_model\<close> raises \<open>ValueError\<close> exactly when some but not all of
  \<open>thermo_data\<close>, \<open>lexicon\<close> and \<open>compartment_data\<close> are \<open>None\<close>. When all three
  are \<open>None\<close> it loads them with \<open>load_data(model_name)\<close> and goes on as if they had
  been supplied; when all three are supplied no \<open>ValueError\<close> of its own is raised.
\<close>

theorem create_model_validation:
  "((\<exists>msg. create_model L model_name thermo_data lexicon compartment_data lg
            = Inl (ValueError msg))
      \<longleftrightarrow> (thermo_data = None \<or> lexicon = None \<or> compartment_data = None)
          \<and> \<not> (thermo_data = None \<and> lexicon = None \<and> compartment_data = None))
   \<and> create_model L model_name None None None lg =
       (case load_data L model_name of
          Inl e \<Rightarrow> Inl e
        | Inr (td, lx, cd) \<Rightarrow> create_model L model_name (Some td) (Some lx) (Some cd) lg)"
proof (rule conjI)
  show "(\<exists>msg. create_model L model_name thermo_data lexicon compartment_data lg
            = Inl (ValueError msg))
      \<longleftrightarrow> (thermo_data = None \<or> lexicon = None \<or> compartment_data = None)
          \<and> \<not> (thermo_data = None \<and> lexicon = None \<and> compartment_data = None)"
  proof (cases "(thermo_data = None \<or> lexicon = None \<or> compartment_data = None)
          \<and> \<not> (thermo_data = None \<and> lexicon = None \<and> compartment_data = None)")
    case True
    then show ?thesis using create_model_mixed [of thermo_data lexicon compartment_data] by blast
  next
    case False
    then consider "thermo_data = None \<and> lexicon = None \<and> compartment_data = None"
      | a b c where "thermo_data = Some a" "lexicon = Some b" "compartment_data = Some c"
      by (cases thermo_data; cases lexicon; cases compartment_data) auto
    then show ?thesis
    proof cases
      case 1
      with False show ?thesis by (simp add: create_model_all_None_not_ValueError)
    next
      case 2
      with False show ?thesis by (simp add: create_model_supplied_not_ValueError)
    qed
  qed
next
  show "create_model L model_name None None None lg =
       (case load_data L model_name of
          Inl e \<Rightarrow> Inl e
        | Inr (td, lx, cd) \<Rightarrow> create_model L model_name (Some td) (Some lx) (Some cd) lg)"
    by (rule create_model_all_None)
qed

text \<open>The example installation.\<close>

lemma dirname_example: "os_path_dirname ''/pkg/static/__init__.py'' = ''/pkg/static''"
  by code_simp

lemma example_path:
  "path example_library f = (if f \<noteq> [] \<and> hd f = CHR ''/'' then f else ''/pkg/static/'' @ f)"
  by (simp add: path_def example_library_def dirname_example os_path_join_def sep_def)

lemma example_library_calls:
  "load_thermoDB example_library ''/pkg/static/thermo_data.thermodb'' = Inr 1"
  "read_lexicon example_library ''/pkg/static/small_ecoli/lexicon.csv'' = Inr 2"
  "read_compartment_data example_library ''/pkg/static/small_ecoli/compartment_data.json''
     = Inr 3"
  "load_json_model example_library ''/pkg/static/small_ecoli.json'' = Inr (parent example_model)"
  "glob example_library ''/pkg/static/*.json''
     = [''/pkg/static/small_ecoli.json'', ''/pkg/static/iJO1366.json'']"
  "ThermoModel example_library td cm
     = Inr (example_model\<lparr>reactions := cobra_reactions cm, parent := cm\<rparr>)"
  "annotate_from_lexicon example_library t lx = Inr t"
  "apply_compartment_data example_library t cd = Inr t"
  "prepare example_library t = Inr t"
  "convert example_library t verbose = Inr t"
  "get_bistream_logger example_library n lg
     = Inr (lg(n := \<lparr>is_FileHandler = False, level = 10\<rparr>
                     # \<lparr>is_FileHandler = True, level = 10\<rparr> # lg n))"
  "reaction_bounds_refused example_library r lb ub
     = (if ub < lb then Some ''lb > ub'' else None)"
  "variable_bounds_refused example_library v lb ub
     = (if ub < lb then Some ''lb > ub'' else None)"
  by (simp_all add: example_library_def)

lemma example_load_data: "load_data example_library ''small_ecoli'' = Inr (1, 2, 3)"
  by (simp add: load_data_def example_path os_path_join_def sep_def example_library_calls)

theorem create_model_validation_witness:
  "create_model example_library ''small_ecoli'' (Some 1) None (Some 3) no_handlers
     = Inl (ValueError ''Not all required data supplied.'')
   \<and> create_model example_library ''small_ecoli'' None None None no_handlers
     = create_model example_library ''small_ecoli'' (Some 1) (Some 2) (Some 3) no_handlers"
proof -
  have "\<exists>msg. create_model example_library ''small_ecoli'' (Some 1) None (Some 3) no_handlers
          = Inl (ValueError msg)"
    using create_model_validation
            [of example_library "''small_ecoli''" "Some 1" None "Some 3" no_handlers]
    by simp
  moreover have "create_model example_library ''small_ecoli'' None None None no_handlers
     = create_model example_library ''small_ecoli'' (Some 1) (Some 2) (Some 3) no_handlers"
    using create_model_validation
            [of example_library "''small_ecoli''" "Some 1" None "Some 3" no_handlers]
    by (simp add: example_load_data)
  ultimately show ?thesis by (auto simp: create_model_def)
qed

section \<open>\<open>os.path\<close> and \<open>str.split\<close>\<close>

lemma rfind_snoc: "rfind (xs @ [x]) c = (if x = c then int (length xs) else rfind xs c)"
proof -
  have "filter (\<lambda>i. (xs @ [x]) ! i = c) (rev [0..<length xs])
          = filter (\<lambda>i. xs ! i = c) (rev [0..<length xs])"
    by (rule filter_cong) (auto simp: nth_append)
  then show ?thesis by (simp add: rfind_def)
qed

lemma rfind_Nil: "rfind [] c = - 1"
  by (simp add: rfind_def)

lemma rfind_bounds: "- 1 \<le> rfind s c \<and> rfind s c < int (length s)"
  by (induction s rule: rev_induct) (auto simp: rfind_snoc rfind_Nil)

lemma drop_rfind: "drop (nat (rfind p c + 1)) p = rev (takeWhile (\<lambda>x. x \<noteq> c) (rev p))"
proof (induction p rule: rev_induct)
  case Nil
  then show ?case by simp
next
  case (snoc x xs)
  show ?case
  proof (cases "x = c")
    case True
    then show ?thesis by (simp add: rfind_snoc)
  next
    case False
    have "nat (rfind xs c + 1) \<le> length xs"
      using rfind_bounds [of xs c] by linarith
    with False snoc show ?thesis by (simp add: rfind_snoc)
  qed
qed

lemma take_rfind: "take (nat (rfind p c + 1)) p = rev (dropWhile (\<lambda>x. x \<noteq> c) (rev p))"
proof -
  have "take (nat (rfind p c + 1)) p @ drop (nat (rfind p c + 1)) p
          = rev (dropWhile (\<lambda>x. x \<noteq> c) (rev p)) @ rev (takeWhile (\<lambda>x. x \<noteq> c) (rev p))"
    by (simp flip: rev_append)
  then show ?thesis
    by (simp add: drop_rfind)
qed

lemma os_path_basename_eq: "os_path_basename p = rev (takeWhile (\<lambda>x. x \<noteq> sep) (rev p))"
  by (simp add: os_path_basename_def drop_rfind)

lemma os_path_basename_append:
  "sep \<notin> set f \<Longrightarrow> os_path_basename (d @ sep # f) = f"
proof -
  assume "sep \<notin> set f"
  then have "takeWhile (\<lambda>x. x \<noteq> sep) (rev f @ sep # rev d) = rev f"
    by (subst takeWhile_append2) auto
  then show ?thesis by (simp add: os_path_basename_eq)
qed

lemma os_path_dirname_append:
  assumes "sep \<notin> set f" "d \<noteq> []" "last d \<noteq> sep"
  shows "os_path_dirname (d @ sep # f) = d"
proof -
  have dw: "dropWhile (\<lambda>x. x \<noteq> sep) (rev f) = []"
    using assms(1) by auto
  have head: "take (nat (rfind (d @ sep # f) sep + 1)) (d @ sep # f) = d @ [sep]"
    using assms(1) by (subst take_rfind) (auto simp: dropWhile_append)
  have ne: "d @ [sep] \<noteq> replicate (Suc (length d)) sep"
  proof
    assume "d @ [sep] = replicate (Suc (length d)) sep"
    then have "d @ [sep] = replicate (length d) sep @ [sep]"
      by (simp add: replicate_append_same)
    then have "d = replicate (length d) sep"
      by simp
    then have "last d = sep"
      using assms(2) by (metis last_replicate length_0_conv)
    with assms(3) show False by simp
  qed
  have rs: "rstrip sep (d @ [sep]) = d"
    using assms(2,3) by (cases d rule: rev_cases) (simp_all add: rstrip_def)
  show ?thesis
    unfolding os_path_dirname_def Let_def head using ne rs by simp
qed

lemma str_split_not_Nil: "str_split s c \<noteq> []"
  by (induction s) (auto split: list.splits)

lemma hd_str_split: "hd (str_split s c) = takeWhile (\<lambda>x. x \<noteq> c) s"
  by (induction s) (auto split: list.splits simp: str_split_not_Nil)

section \<open>The files \<open>load_data\<close> reads\<close>

lemma os_path_join_file:
  "f \<noteq> [] \<Longrightarrow> hd f \<noteq> sep \<Longrightarrow> os_path_join a f = spec_file_in a f"
  by (simp add: os_path_join_def spec_file_in_def sep_def)

lemma spec_file_in_relative:
  assumes "m = [] \<or> hd m \<noteq> sep" and "f \<noteq> []" and "hd f \<noteq> sep"
  shows "spec_file_in m f \<noteq> [] \<and> hd (spec_file_in m f) \<noteq> sep"
  using assms by (cases m) (auto simp: spec_file_in_def)

lemma path_under_static_folder:
  "f \<noteq> [] \<Longrightarrow> hd f \<noteq> sep \<Longrightarrow> path L f = spec_under_static_folder L f"
  by (simp add: path_def spec_under_static_folder_def static_folder_def os_path_join_file)

text \<open>
  For every model name that does not begin with a slash, \<open>load_data\<close> does what the
  specification says: it loads the thermodynamic database from \<open>thermo_data.thermodb\<close>,
  the lexicon from \<open><model_name>/lexicon.csv\<close> and the compartment data from
  \<open><model_name>/compartment_data.json\<close>, all under the static folder, in that order,
  and returns the triple.
\<close>

lemma load_data_reads_static_files:
  assumes "model_name = [] \<or> hd model_name \<noteq> CHR ''/''"
  shows "load_data L model_name = spec_load_data L model_name"
proof -
  have name: "model_name = [] \<or> hd model_name \<noteq> sep"
    using assms by (simp add: sep_def)
  have p1: "path L ''thermo_data.thermodb'' = spec_under_static_folder L ''thermo_data.thermodb''"
    by (rule path_under_static_folder) (simp_all add: sep_def)
  have j2: "os_path_join model_name ''lexicon.csv'' = spec_file_in model_name ''lexicon.csv''"
    by (rule os_path_join_file) (simp_all add: sep_def)
  have j3: "os_path_join model_name ''compartment_data.json''
              = spec_file_in model_name ''compartment_data.json''"
    by (rule os_path_join_file) (simp_all add: sep_def)
  have r2: "spec_file_in model_name ''lexicon.csv'' \<noteq> []
              \<and> hd (spec_file_in model_name ''lexicon.csv'') \<noteq> sep"
    using name by (rule spec_file_in_relative) (simp_all add: sep_def)
  have r3: "spec_file_in model_name ''compartment_data.json'' \<noteq> []
              \<and> hd (spec_file_in model_name ''compartment_data.json'') \<noteq> sep"
    using name by (rule spec_file_in_relative) (simp_all add: sep_def)
  have p2: "path L (spec_file_in model_name ''lexicon.csv'')
              = spec_under_static_folder L (spec_file_in model_name ''lexicon.csv'')"
    using r2 by (intro path_under_static_folder) simp_all
  have p3: "path L (spec_file_in model_name ''compartment_data.json'')
              = spec_under_static_folder L (spec_file_in model_name ''compartment_data.json'')"
    using r3 by (intro path_under_static_folder) simp_all
  show ?thesis
    unfolding load_data_def spec_load_data_def j2 j3 p1 p2 p3
    by (simp split: sum.splits)
qed

lemma example_static_folder: "static_folder example_library = ''/pkg/static''"
  by (simp add: static_folder_def example_library_def dirname_example)

lemma example_load_data_as_specified:
  "load_data example_library ''small_ecoli'' = spec_load_data example_library ''small_ecoli''
   \<and> spec_load_data example_library ''small_ecoli'' = Inr (1, 2, 3)"
proof -
  have "load_data example_library ''small_ecoli''
          = spec_load_data example_library ''small_ecoli''"
    by (rule load_data_reads_static_files) simp
  then show ?thesis by (simp add: example_load_data)
qed

lemma outside_library_calls:
  "static_file outside_library = ''/pkg/static/__init__.py''"
  "load_thermoDB outside_library ''/pkg/static/thermo_data.thermodb'' = Inr 1"
  "read_lexicon outside_library p
     = (if p = ''/tmp/m/lexicon.csv'' then Inr 7 else Inl ''no such file'')"
  "read_compartment_data outside_library p
     = (if p = ''/tmp/m/compartment_data.json'' then Inr 8 else Inl ''no such file'')"
  by (simp_all add: outside_library_def example_library_def)

text \<open>
  Claim C5. \<open>load_data\<close> takes its inputs from fixed files under the static folder: the
  thermodynamic database from \<open>thermo_data.thermodb\<close>, the lexicon from
  \<open><model_name>/lexicon.csv\<close> and the compartment data from
  \<open><model_name>/compartment_data.json\<close>, in that order. The code leaves the static
  folder where the model name begins with a slash. With the static folder \<open>/pkg/static\<close>
  and the model name \<open>/tmp/m\<close>, \<open>_path\<close> returns \<open>/tmp/m/lexicon.csv\<close>, which is not
  a file in the static folder, and \<open>load_data\<close> returns the lexicon and the compartment
  data that lie in \<open>/tmp/m\<close>, where loading from under the static folder finds no such
  file.
\<close>

theorem load_data_outside_static_folder:
  "path outside_library (os_path_join ''/tmp/m'' ''lexicon.csv'') = ''/tmp/m/lexicon.csv''
   \<and> path outside_library (os_path_join ''/tmp/m'' ''compartment_data.json'')
       = ''/tmp/m/compartment_data.json''
   \<and> load_data outside_library ''/tmp/m'' = Inr (1, 7, 8)
   \<and> spec_under_static_folder outside_library (spec_file_in ''/tmp/m'' ''lexicon.csv'')
       = ''/pkg/static//tmp/m/lexicon.csv''
   \<and> spec_load_data outside_library ''/tmp/m'' = Inl (Raised ''no such file'')"
  by (simp add: load_data_def spec_load_data_def spec_under_static_folder_def
        spec_file_in_def static_folder_def path_def os_path_join_def sep_def
        dirname_example outside_library_calls)

section \<open>The loops of \<open>adjust_model\<close>\<close>

lemma has_id_upd [simp]: "has_id (d(i \<mapsto> x)) j \<longleftrightarrow> j = i \<or> has_id d j"
  by (simp add: has_id_def)

lemma get_by_id_Inr: "get_by_id d i = Inr x \<longleftrightarrow> d i = Some x"
  by (simp add: get_by_id_def split: option.splits)

lemma set_reaction_bounds_Inr:
  "set_reaction_bounds L r lb ub = Inr r' \<longleftrightarrow>
     reaction_bounds_refused L r lb ub = None \<and> r' = r\<lparr>bounds := (lb, ub)\<rparr>"
  by (auto simp: set_reaction_bounds_def split: option.splits)

lemma set_bounds_Inr:
  "set_bounds L v lb ub = Inr v' \<longleftrightarrow>
     variable_bounds_refused L v lb ub = None \<and> v' = v\<lparr>var_lb := lb, var_ub := ub\<rparr>"
  by (auto simp: set_bounds_def split: option.splits)

text \<open>One present row of the reaction loop, when the loop returns.\<close>

lemma reactions_row_present:
  assumes "has_id (reactions tm) i"
    and "adjust_model_reactions L tm ((i, lb, ub) # rows) = Inr tm'"
  shows "\<exists>p r. cobra_reactions (parent tm) i = Some p \<and> reactions tm i = Some r
           \<and> adjust_model_reactions L
                (tm\<lparr>parent := (parent tm)\<lparr>cobra_reactions :=
                                  (cobra_reactions (parent tm))(i \<mapsto> p\<lparr>bounds := (lb, ub)\<rparr>)\<rparr>,
                    reactions := (reactions tm)(i \<mapsto> r\<lparr>bounds := (lb, ub)\<rparr>)\<rparr>) rows
               = Inr tm'"
  using assms
  by (auto simp: get_by_id_def set_reaction_bounds_def Let_def
           split: option.splits sum.splits)

lemma reactions_row_absent:
  "\<not> has_id (reactions tm) i \<Longrightarrow>
   adjust_model_reactions L tm ((i, lb, ub) # rows) = adjust_model_reactions L tm rows"
  by simp

lemma reactions_append:
  "adjust_model_reactions L tm (xs @ ys) =
     (case adjust_model_reactions L tm xs of
        Inl e \<Rightarrow> Inl e
      | Inr s \<Rightarrow> adjust_model_reactions L s ys)"
proof (induction xs arbitrary: tm)
  case Nil
  then show ?case by simp
next
  case (Cons row xs)
  obtain i lb ub where row: "row = (i, lb, ub)" by (cases row) auto
  show ?case
    unfolding row
    by (simp add: Cons.IH Let_def split: sum.splits)
qed

lemma reactions_frame:
  assumes "adjust_model_reactions L tm rows = Inr tm'"
  shows "name tm' = name tm \<and> solver tm' = solver tm \<and> compartments tm' = compartments tm
         \<and> log_concentration tm' = log_concentration tm
         \<and> (\<forall>j. has_id (reactions tm') j = has_id (reactions tm) j)
         \<and> (\<forall>j. has_id (cobra_reactions (parent tm')) j
                  = has_id (cobra_reactions (parent tm)) j)"
  using assms
proof (induction rows arbitrary: tm)
  case Nil
  then show ?case by simp
next
  case (Cons row rows)
  obtain i lb ub where row: "row = (i, lb, ub)" by (cases row) auto
  show ?case
  proof (cases "has_id (reactions tm) i")
    case True
    from reactions_row_present [OF True Cons.prems [unfolded row]]
    obtain p r where p: "cobra_reactions (parent tm) i = Some p"
      and r: "reactions tm i = Some r"
      and rest: "adjust_model_reactions L
                (tm\<lparr>parent := (parent tm)\<lparr>cobra_reactions :=
                                  (cobra_reactions (parent tm))(i \<mapsto> p\<lparr>bounds := (lb, ub)\<rparr>)\<rparr>,
                    reactions := (reactions tm)(i \<mapsto> r\<lparr>bounds := (lb, ub)\<rparr>)\<rparr>) rows
               = Inr tm'"
      by blast
    from Cons.IH [OF rest] p r show ?thesis
      by (auto simp: has_id_def)
  next
    case False
    with Cons.prems row have "adjust_model_reactions L tm rows = Inr tm'"
      by simp
    from Cons.IH [OF this] show ?thesis .
  qed
qed

lemma reactions_untouched:
  assumes "adjust_model_reactions L tm rows = Inr tm'" and "j \<notin> fst ` set rows"
  shows "reactions tm' j = reactions tm j
         \<and> cobra_reactions (parent tm') j = cobra_reactions (parent tm) j"
  using assms
proof (induction rows arbitrary: tm)
  case Nil
  then show ?case by simp
next
  case (Cons row rows)
  obtain i lb ub where row: "row = (i, lb, ub)" by (cases row) auto
  from Cons.prems(2) row have ji: "j \<noteq> i" and j: "j \<notin> fst ` set rows" by auto
  show ?case
  proof (cases "has_id (reactions tm) i")
    case True
    from reactions_row_present [OF True Cons.prems(1) [unfolded row]]
    obtain p r where rest: "adjust_model_reactions L
                (tm\<lparr>parent := (parent tm)\<lparr>cobra_reactions :=
                                  (cobra_reactions (parent tm))(i \<mapsto> p\<lparr>bounds := (lb, ub)\<rparr>)\<rparr>,
                    reactions := (reactions tm)(i \<mapsto> r\<lparr>bounds := (lb, ub)\<rparr>)\<rparr>) rows
               = Inr tm'"
      by blast
    from Cons.IH [OF rest j] ji show ?thesis by simp
  next
    case False
    with Cons.prems(1) row have "adjust_model_reactions L tm rows = Inr tm'"
      by simp
    from Cons.IH [OF this j] show ?thesis .
  qed
qed

lemma reactions_single:
  assumes "adjust_model_reactions L tm [(i, lb, ub)] = Inr s" and "has_id (reactions tm) i"
  shows "\<exists>r p. reactions s i = Some r \<and> bounds r = (lb, ub)
            \<and> cobra_reactions (parent s) i = Some p \<and> bounds p = (lb, ub)"
  using reactions_row_present [OF assms(2) assms(1)] by auto

text \<open>A present row takes effect when it is processed, and lasts until a later row names
  the same reaction.\<close>

lemma reactions_row_effect:
  assumes run: "adjust_model_reactions L tm (pre @ (i, lb, ub) # post) = Inr tm'"
    and present: "has_id (reactions tm) i"
  shows "(\<exists>s r p. adjust_model_reactions L tm (pre @ [(i, lb, ub)]) = Inr s
            \<and> reactions s i = Some r \<and> bounds r = (lb, ub)
            \<and> cobra_reactions (parent s) i = Some p \<and> bounds p = (lb, ub))
         \<and> (i \<notin> fst ` set post \<longrightarrow>
              (\<exists>r p. reactions tm' i = Some r \<and> bounds r = (lb, ub)
                 \<and> cobra_reactions (parent tm') i = Some p \<and> bounds p = (lb, ub)))"
proof -
  from run obtain s1 where s1: "adjust_model_reactions L tm pre = Inr s1"
    and rest: "adjust_model_reactions L s1 ((i, lb, ub) # post) = Inr tm'"
    by (auto simp: reactions_append split: sum.splits)
  from rest have "adjust_model_reactions L s1 ([(i, lb, ub)] @ post) = Inr tm'" by simp
  then obtain s2 where s2: "adjust_model_reactions L s1 [(i, lb, ub)] = Inr s2"
    and post: "adjust_model_reactions L s2 post = Inr tm'"
    unfolding reactions_append [of L s1 "[(i, lb, ub)]" post]
    by (auto split: sum.splits)
  have present1: "has_id (reactions s1) i"
    using reactions_frame [OF s1] present by simp
  from reactions_single [OF s2 present1]
  obtain r p where rp: "reactions s2 i = Some r" "bounds r = (lb, ub)"
      "cobra_reactions (parent s2) i = Some p" "bounds p = (lb, ub)"
    by blast
  have upto: "adjust_model_reactions L tm (pre @ [(i, lb, ub)]) = Inr s2"
    by (simp only: reactions_append s1 s2 sum.case)
  have later: "i \<notin> fst ` set post \<Longrightarrow>
      reactions tm' i = reactions s2 i
      \<and> cobra_reactions (parent tm') i = cobra_reactions (parent s2) i"
    using reactions_untouched [OF post] by simp
  show ?thesis
    using upto rp later by auto
qed

text \<open>The inner loop, over the compartments.\<close>

lemma compartments_present:
  assumes "has_id (log_concentration tm) (met @ ''_'' @ c)"
    and "adjust_model_compartments L tm met lb ub (c # cs) = Inr tm'"
  shows "\<exists>v. log_concentration tm (met @ ''_'' @ c) = Some v
           \<and> adjust_model_compartments L
                (tm\<lparr>log_concentration :=
                      (log_concentration tm)
                        (met @ ''_'' @ c \<mapsto>
                           v\<lparr>variable := (variable v)\<lparr>var_lb := lb, var_ub := ub\<rparr>\<rparr>)\<rparr>)
                met lb ub cs
               = Inr tm'"
  using assms
  by (auto simp: get_by_id_def set_bounds_def Let_def split: option.splits sum.splits)

lemma compartments_append:
  "adjust_model_compartments L tm met lb ub (xs @ ys) =
     (case adjust_model_compartments L tm met lb ub xs of
        Inl e \<Rightarrow> Inl e
      | Inr s \<Rightarrow> adjust_model_compartments L s met lb ub ys)"
  by (induction xs arbitrary: tm) (simp_all add: Let_def split: sum.splits)

lemma compartments_frame:
  assumes "adjust_model_compartments L tm met lb ub cs = Inr tm'"
  shows "name tm' = name tm \<and> solver tm' = solver tm \<and> compartments tm' = compartments tm
         \<and> reactions tm' = reactions tm \<and> parent tm' = parent tm
         \<and> (\<forall>j. has_id (log_concentration tm') j = has_id (log_concentration tm) j)"
  using assms
proof (induction cs arbitrary: tm)
  case Nil
  then show ?case by simp
next
  case (Cons c cs)
  show ?case
  proof (cases "has_id (log_concentration tm) (met @ ''_'' @ c)")
    case True
    from compartments_present [OF True Cons.prems]
    obtain v where v: "log_concentration tm (met @ ''_'' @ c) = Some v"
      and rest: "adjust_model_compartments L
                (tm\<lparr>log_concentration :=
                      (log_concentration tm)
                        (met @ ''_'' @ c \<mapsto>
                           v\<lparr>variable := (variable v)\<lparr>var_lb := lb, var_ub := ub\<rparr>\<rparr>)\<rparr>)
                met lb ub cs
               = Inr tm'"
      by blast
    from Cons.IH [OF rest] v show ?thesis
      by (auto simp: has_id_def)
  next
    case False
    with Cons.prems have "adjust_model_compartments L tm met lb ub cs = Inr tm'"
      by (simp add: Let_def)
    from Cons.IH [OF this] show ?thesis .
  qed
qed

lemma compartments_untouched:
  assumes "adjust_model_compartments L tm met lb ub cs = Inr tm'"
    and "\<forall>c\<in>set cs. met @ ''_'' @ c \<noteq> j"
  shows "log_concentration tm' j = log_concentration tm j"
  using assms
proof (induction cs arbitrary: tm)
  case Nil
  then show ?case by simp
next
  case (Cons c cs)
  from Cons.prems(2) have jc: "met @ ''_'' @ c \<noteq> j" and j: "\<forall>c\<in>set cs. met @ ''_'' @ c \<noteq> j"
    by auto
  show ?case
  proof (cases "has_id (log_concentration tm) (met @ ''_'' @ c)")
    case True
    from compartments_present [OF True Cons.prems(1)]
    obtain v where rest: "adjust_model_compartments L
                (tm\<lparr>log_concentration :=
                      (log_concentration tm)
                        (met @ ''_'' @ c \<mapsto>
                           v\<lparr>variable := (variable v)\<lparr>var_lb := lb, var_ub := ub\<rparr>\<rparr>)\<rparr>)
                met lb ub cs
               = Inr tm'"
      by blast
    from Cons.IH [OF rest j] jc show ?thesis by auto
  next
    case False
    with Cons.prems(1) have "adjust_model_compartments L tm met lb ub cs = Inr tm'"
      by (simp add: Let_def)
    from Cons.IH [OF this j] show ?thesis .
  qed
qed

lemma compartments_single:
  assumes "adjust_model_compartments L tm met lb ub [c] = Inr s"
    and "has_id (log_concentration tm) (met @ ''_'' @ c)"
  shows "\<exists>v. log_concentration s (met @ ''_'' @ c) = Some v
           \<and> var_lb (variable v) = lb \<and> var_ub (variable v) = ub"
  using compartments_present [OF assms(2) assms(1)] by auto

lemma compartments_none:
  "\<forall>c\<in>set cs. \<not> has_id (log_concentration tm) (met @ ''_'' @ c) \<Longrightarrow>
   adjust_model_compartments L tm met lb ub cs = Inr tm"
  by (induction cs) (simp_all add: Let_def)

text \<open>The outer loop, over the rows of \<open>lc_bounds\<close>.\<close>

lemma log_concentrations_append:
  "adjust_model_log_concentrations L tm (xs @ ys) =
     (case adjust_model_log_concentrations L tm xs of
        Inl e \<Rightarrow> Inl e
      | Inr s \<Rightarrow> adjust_model_log_concentrations L s ys)"
proof (induction xs arbitrary: tm)
  case Nil
  then show ?case by simp
next
  case (Cons row xs)
  obtain met lb ub where row: "row = (met, lb, ub)" by (cases row) auto
  show ?case
    unfolding row by (simp add: Cons.IH split: sum.splits)
qed

lemma log_concentrations_frame:
  assumes "adjust_model_log_concentrations L tm rows = Inr tm'"
  shows "name tm' = name tm \<and> solver tm' = solver tm \<and> compartments tm' = compartments tm
         \<and> reactions tm' = reactions tm \<and> parent tm' = parent tm
         \<and> (\<forall>j. has_id (log_concentration tm') j = has_id (log_concentration tm) j)"
  using assms
proof (induction rows arbitrary: tm)
  case Nil
  then show ?case by simp
next
  case (Cons row rows)
  obtain met lb ub where row: "row = (met, lb, ub)" by (cases row) auto
  from Cons.prems obtain s
    where s: "adjust_model_compartments L tm met lb ub (compartments tm) = Inr s"
      and rest: "adjust_model_log_concentrations L s rows = Inr tm'"
    unfolding row by (auto split: sum.splits)
  from compartments_frame [OF s] Cons.IH [OF rest] show ?case by simp
qed

lemma log_concentrations_untouched:
  assumes "adjust_model_log_concentrations L tm rows = Inr tm'"
    and "\<forall>(met, lb, ub)\<in>set rows. \<forall>c\<in>set (compartments tm). met @ ''_'' @ c \<noteq> j"
  shows "log_concentration tm' j = log_concentration tm j"
  using assms
proof (induction rows arbitrary: tm)
  case Nil
  then show ?case by simp
next
  case (Cons row rows)
  obtain met lb ub where row: "row = (met, lb, ub)" by (cases row) auto
  from Cons.prems(1) obtain s
    where s: "adjust_model_compartments L tm met lb ub (compartments tm) = Inr s"
      and rest: "adjust_model_log_concentrations L s rows = Inr tm'"
    unfolding row by (auto split: sum.splits)
  have same: "compartments s = compartments tm"
    using compartments_frame [OF s] by simp
  from Cons.prems(2) row have here: "\<forall>c\<in>set (compartments tm). met @ ''_'' @ c \<noteq> j"
    and later: "\<forall>(met, lb, ub)\<in>set rows. \<forall>c\<in>set (compartments s). met @ ''_'' @ c \<noteq> j"
    by (auto simp: same)
  from compartments_untouched [OF s here] Cons.IH [OF rest later] show ?case by simp
qed

lemma log_concentrations_none:
  assumes "\<forall>c\<in>set (compartments tm). \<not> has_id (log_concentration tm) (met @ ''_'' @ c)"
  shows "adjust_model_log_concentrations L tm ((met, lb, ub) # rows)
           = adjust_model_log_concentrations L tm rows"
  by (simp add: compartments_none [OF assms])

lemma log_concentrations_row_effect:
  assumes run: "adjust_model_log_concentrations L tm (pre @ (met, lb, ub) # post) = Inr tm'"
    and comp: "compartments tm = before @ c # after"
    and present: "has_id (log_concentration tm) (met @ ''_'' @ c)"
  shows "(\<exists>s1 s v. adjust_model_log_concentrations L tm pre = Inr s1
            \<and> adjust_model_compartments L s1 met lb ub (before @ [c]) = Inr s
            \<and> log_concentration s (met @ ''_'' @ c) = Some v
            \<and> var_lb (variable v) = lb \<and> var_ub (variable v) = ub)
         \<and> (c \<notin> set after
             \<and> (\<forall>(met', lb', ub')\<in>set post. \<forall>c'\<in>set (compartments tm).
                   met' @ ''_'' @ c' \<noteq> met @ ''_'' @ c) \<longrightarrow>
              (\<exists>v. log_concentration tm' (met @ ''_'' @ c) = Some v
                 \<and> var_lb (variable v) = lb \<and> var_ub (variable v) = ub))"
proof -
  from run obtain s1 where s1: "adjust_model_log_concentrations L tm pre = Inr s1"
    and rest: "adjust_model_log_concentrations L s1 ((met, lb, ub) # post) = Inr tm'"
    by (auto simp: log_concentrations_append split: sum.splits)
  have f1: "compartments s1 = compartments tm"
    "has_id (log_concentration s1) (met @ ''_'' @ c)"
    using log_concentrations_frame [OF s1] present by simp_all
  from rest obtain s3
    where s3: "adjust_model_compartments L s1 met lb ub (before @ c # after) = Inr s3"
      and post: "adjust_model_log_concentrations L s3 post = Inr tm'"
    by (auto simp: f1 comp split: sum.splits)
  from s3 have "adjust_model_compartments L s1 met lb ub (before @ [c] @ after) = Inr s3"
    by simp
  then obtain sA sB
    where sA: "adjust_model_compartments L s1 met lb ub before = Inr sA"
      and sB: "adjust_model_compartments L sA met lb ub [c] = Inr sB"
      and sC: "adjust_model_compartments L sB met lb ub after = Inr s3"
    unfolding compartments_append [of L s1 met lb ub before "[c] @ after"]
      compartments_append [of L _ met lb ub "[c]" after]
    by (auto split: sum.splits)
  have presentA: "has_id (log_concentration sA) (met @ ''_'' @ c)"
    using compartments_frame [OF sA] f1(2) by simp
  from compartments_single [OF sB presentA]
  obtain v where v: "log_concentration sB (met @ ''_'' @ c) = Some v"
      "var_lb (variable v) = lb" "var_ub (variable v) = ub"
    by blast
  have upto: "adjust_model_compartments L s1 met lb ub (before @ [c]) = Inr sB"
    by (simp only: compartments_append sA sB sum.case)
  have f3: "compartments s3 = compartments tm"
    using compartments_frame [OF s3] f1(1) by simp
  have later: "log_concentration tm' (met @ ''_'' @ c) = log_concentration sB (met @ ''_'' @ c)"
    if "c \<notin> set after"
      and "\<forall>(met', lb', ub')\<in>set post. \<forall>c'\<in>set (compartments tm).
              met' @ ''_'' @ c' \<noteq> met @ ''_'' @ c"
  proof -
    have "\<forall>c'\<in>set after. met @ ''_'' @ c' \<noteq> met @ ''_'' @ c"
      using that(1) by auto
    from compartments_untouched [OF sC this]
    have a: "log_concentration s3 (met @ ''_'' @ c) = log_concentration sB (met @ ''_'' @ c)" .
    have "\<forall>(met', lb', ub')\<in>set post. \<forall>c'\<in>set (compartments s3).
              met' @ ''_'' @ c' \<noteq> met @ ''_'' @ c"
      using that(2) by (simp add: f3)
    from log_concentrations_untouched [OF post this] a show ?thesis by simp
  qed
  show ?thesis
    using s1 upto v later by auto
qed

section \<open>What \<open>adjust_model\<close> writes\<close>

lemma adjust_model_Inr:
  "adjust_model L tm rxn_bounds lc_bounds = Inr tm' \<longleftrightarrow>
     (\<exists>s0. adjust_model_reactions L tm rxn_bounds = Inr s0
          \<and> adjust_model_log_concentrations L s0 lc_bounds = Inr tm')"
  by (auto simp: adjust_model_def split: sum.splits)

lemma adjust_model_no_lc [simp]:
  "adjust_model L tm rxn_bounds [] = adjust_model_reactions L tm rxn_bounds"
  by (simp add: adjust_model_def split: sum.splits)

text \<open>
  Claim C2. When \<open>adjust_model\<close> returns, it has gone through both tables and stored the
  bounds of every matching row. A row \<open>(id, lb, ub)\<close> of \<open>rxn_bounds\<close> whose \<open>id\<close> is a
  reaction of \<open>tmodel\<close> gives that reaction the bounds \<open>(lb, ub)\<close>: they hold once the
  table has been processed up to that row, and still hold at the end unless a later row
  names the same reaction. A row \<open>(id, lb, ub)\<close> of \<open>lc_bounds\<close> and a compartment \<open>c\<close> of
  \<open>tmodel\<close> for which \<open>id + "_" + c\<close> is a log-concentration variable give that variable
  the bounds \<open>(lb, ub)\<close>: they hold once the loops have come to that row and compartment,
  and still hold at the end unless a later compartment or row writes the same variable.
\<close>

theorem adjust_model_sets_bounds:
  assumes "adjust_model L tmodel rxn_bounds lc_bounds = Inr tmodel'"
  shows "(\<forall>pre rxn_id lb ub post.
            rxn_bounds = pre @ (rxn_id, lb, ub) # post \<and> has_id (reactions tmodel) rxn_id \<longrightarrow>
              (\<exists>s r. adjust_model L tmodel (pre @ [(rxn_id, lb, ub)]) [] = Inr s
                 \<and> reactions s rxn_id = Some r \<and> bounds r = (lb, ub))
              \<and> (rxn_id \<notin> fst ` set post \<longrightarrow>
                   (\<exists>r. reactions tmodel' rxn_id = Some r \<and> bounds r = (lb, ub))))
       \<and> (\<forall>pre met lb ub post before c after.
            lc_bounds = pre @ (met, lb, ub) # post \<and> compartments tmodel = before @ c # after
            \<and> has_id (log_concentration tmodel) (met @ ''_'' @ c) \<longrightarrow>
              (\<exists>s1 s v. adjust_model L tmodel rxn_bounds pre = Inr s1
                 \<and> adjust_model_compartments L s1 met lb ub (before @ [c]) = Inr s
                 \<and> log_concentration s (met @ ''_'' @ c) = Some v
                 \<and> var_lb (variable v) = lb \<and> var_ub (variable v) = ub)
              \<and> (c \<notin> set after
                  \<and> (\<forall>(met', lb', ub')\<in>set post. \<forall>c'\<in>set (compartments tmodel).
                        met' @ ''_'' @ c' \<noteq> met @ ''_'' @ c) \<longrightarrow>
                   (\<exists>v. log_concentration tmodel' (met @ ''_'' @ c) = Some v
                      \<and> var_lb (variable v) = lb \<and> var_ub (variable v) = ub)))"
proof -
  from assms obtain s0 where s0: "adjust_model_reactions L tmodel rxn_bounds = Inr s0"
    and lc: "adjust_model_log_concentrations L s0 lc_bounds = Inr tmodel'"
    by (auto simp: adjust_model_Inr)
  have same_reactions: "reactions tmodel' = reactions s0"
    using log_concentrations_frame [OF lc] by simp
  have frame0: "compartments s0 = compartments tmodel"
    "log_concentration s0 = log_concentration tmodel"
    using reactions_frame [OF s0] by simp_all
  have rxn: "(\<exists>s r. adjust_model L tmodel (pre @ [(rxn_id, lb, ub)]) [] = Inr s
                 \<and> reactions s rxn_id = Some r \<and> bounds r = (lb, ub))
              \<and> (rxn_id \<notin> fst ` set post \<longrightarrow>
                   (\<exists>r. reactions tmodel' rxn_id = Some r \<and> bounds r = (lb, ub)))"
    if "rxn_bounds = pre @ (rxn_id, lb, ub) # post" "has_id (reactions tmodel) rxn_id"
    for pre rxn_id lb ub post
    using reactions_row_effect [OF s0 [unfolded that(1)] that(2)] same_reactions
    by (simp only: adjust_model_no_lc) blast
  have logc: "(\<exists>s1 s v. adjust_model L tmodel rxn_bounds pre = Inr s1
                 \<and> adjust_model_compartments L s1 met lb ub (before @ [c]) = Inr s
                 \<and> log_concentration s (met @ ''_'' @ c) = Some v
                 \<and> var_lb (variable v) = lb \<and> var_ub (variable v) = ub)
              \<and> (c \<notin> set after
                  \<and> (\<forall>(met', lb', ub')\<in>set post. \<forall>c'\<in>set (compartments tmodel).
                        met' @ ''_'' @ c' \<noteq> met @ ''_'' @ c) \<longrightarrow>
                   (\<exists>v. log_concentration tmodel' (met @ ''_'' @ c) = Some v
                      \<and> var_lb (variable v) = lb \<and> var_ub (variable v) = ub))"
    if "lc_bounds = pre @ (met, lb, ub) # post" "compartments tmodel = before @ c # after"
      "has_id (log_concentration tmodel) (met @ ''_'' @ c)"
    for pre met lb ub post before c after
  proof -
    have comp0: "compartments s0 = before @ c # after"
      and present0: "has_id (log_concentration s0) (met @ ''_'' @ c)"
      using that(2,3) frame0 by simp_all
    from log_concentrations_row_effect [OF lc [unfolded that(1)] comp0 present0]
    show ?thesis
      by (simp only: adjust_model_Inr s0 frame0(1)) blast
  qed
  show ?thesis
    using rxn logc by blast
qed

text \<open>
  Claim C3. A row of \<open>rxn_bounds\<close> whose \<open>id\<close> is not a reaction of \<open>tmodel\<close>, and a row
  of \<open>lc_bounds\<close> whose \<open>id\<close> gives no log-concentration variable with any compartment,
  do nothing: alone, such a row leaves the model as it was and raises nothing, and in a
  table it can be left out without changing what \<open>adjust_model\<close> returns or raises.
\<close>

theorem adjust_model_skips_absent:
  "(\<not> has_id (reactions tmodel) rxn_id \<longrightarrow>
      adjust_model L tmodel [(rxn_id, lb, ub)] [] = Inr tmodel
      \<and> adjust_model L tmodel (pre @ (rxn_id, lb, ub) # post) lc_bounds
          = adjust_model L tmodel (pre @ post) lc_bounds)
   \<and> ((\<forall>c\<in>set (compartments tmodel). \<not> has_id (log_concentration tmodel) (met @ ''_'' @ c)) \<longrightarrow>
      adjust_model L tmodel [] [(met, lb, ub)] = Inr tmodel
      \<and> adjust_model L tmodel rxn_bounds (pre @ (met, lb, ub) # post)
          = adjust_model L tmodel rxn_bounds (pre @ post))"
proof (intro conjI impI)
  assume absent: "\<not> has_id (reactions tmodel) rxn_id"
  then show "adjust_model L tmodel [(rxn_id, lb, ub)] [] = Inr tmodel"
    by simp
  have "adjust_model_reactions L tmodel (pre @ (rxn_id, lb, ub) # post)
          = adjust_model_reactions L tmodel (pre @ post)"
  proof (cases "adjust_model_reactions L tmodel pre")
    case (Inl e)
    then show ?thesis by (simp add: reactions_append)
  next
    case (Inr s)
    have "\<not> has_id (reactions s) rxn_id"
      using reactions_frame [OF Inr] absent by simp
    then show ?thesis by (simp add: reactions_append Inr)
  qed
  then show "adjust_model L tmodel (pre @ (rxn_id, lb, ub) # post) lc_bounds
          = adjust_model L tmodel (pre @ post) lc_bounds"
    by (simp add: adjust_model_def)
next
  assume absent: "\<forall>c\<in>set (compartments tmodel).
                    \<not> has_id (log_concentration tmodel) (met @ ''_'' @ c)"
  then show "adjust_model L tmodel [] [(met, lb, ub)] = Inr tmodel"
    by (simp add: adjust_model_def compartments_none)
  show "adjust_model L tmodel rxn_bounds (pre @ (met, lb, ub) # post)
          = adjust_model L tmodel rxn_bounds (pre @ post)"
  proof (cases "adjust_model_reactions L tmodel rxn_bounds")
    case (Inl e)
    then show ?thesis by (simp add: adjust_model_def)
  next
    case s0: (Inr s0)
    show ?thesis
    proof (cases "adjust_model_log_concentrations L s0 pre")
      case (Inl e)
      then show ?thesis by (simp add: adjust_model_def s0 log_concentrations_append)
    next
      case s1: (Inr s1)
      have "\<forall>c\<in>set (compartments s1). \<not> has_id (log_concentration s1) (met @ ''_'' @ c)"
        using reactions_frame [OF s0] log_concentrations_frame [OF s1] absent by simp
      from log_concentrations_none [OF this]
      show ?thesis by (simp add: adjust_model_def s0 s1 log_concentrations_append)
    qed
  qed
qed

text \<open>
  Claim C9. When \<open>adjust_model\<close> returns, every row of \<open>rxn_bounds\<close> whose \<open>id\<close> is a
  reaction of \<open>tmodel\<close> has been written to two objects, the reaction of \<open>tmodel\<close> and the
  reaction of the same name of \<open>tmodel.parent\<close>: both hold \<open>(lb, ub)\<close> once the table has
  been processed up to that row, and at the end unless a later row names the same
  reaction. So the parent model is changed too.
\<close>

theorem adjust_model_writes_parent:
  assumes "adjust_model L tmodel rxn_bounds lc_bounds = Inr tmodel'"
    and "rxn_bounds = pre @ (rxn_id, lb, ub) # post"
    and "has_id (reactions tmodel) rxn_id"
  shows "(\<exists>s r p. adjust_model L tmodel (pre @ [(rxn_id, lb, ub)]) [] = Inr s
            \<and> reactions s rxn_id = Some r \<and> bounds r = (lb, ub)
            \<and> cobra_reactions (parent s) rxn_id = Some p \<and> bounds p = (lb, ub))
         \<and> (rxn_id \<notin> fst ` set post \<longrightarrow>
              (\<exists>r p. reactions tmodel' rxn_id = Some r \<and> bounds r = (lb, ub)
                 \<and> cobra_reactions (parent tmodel') rxn_id = Some p \<and> bounds p = (lb, ub)))"
proof -
  from assms(1) obtain s0 where s0: "adjust_model_reactions L tmodel rxn_bounds = Inr s0"
    and lc: "adjust_model_log_concentrations L s0 lc_bounds = Inr tmodel'"
    by (auto simp: adjust_model_Inr)
  have same: "reactions tmodel' = reactions s0" "parent tmodel' = parent s0"
    using log_concentrations_frame [OF lc] by simp_all
  from reactions_row_effect [OF s0 [unfolded assms(2)] assms(3)] same
  show ?thesis
    by (simp only: adjust_model_no_lc) blast
qed

lemma example_bounds_calls:
  "reaction_bounds_refused example_library r lb ub
     = (if ub < lb then Some ''lb > ub'' else None)"
  "variable_bounds_refused example_library v lb ub
     = (if ub < lb then Some ''lb > ub'' else None)"
  by (simp_all add: example_library_def)

lemma example_model_has:
  "has_id (reactions example_model) ''R1''"
  "\<not> has_id (reactions example_model) ''RX''"
  "has_id (log_concentration example_model) ''atp_c''"
  "\<not> has_id (log_concentration example_model) ''nadh_c''"
  "\<not> has_id (log_concentration example_model) ''nadh_e''"
  "compartments example_model = [''c'', ''e'']"
  by (simp_all add: example_model_def has_id_def)

lemma example_adjust_returns:
  "\<exists>t. adjust_model example_library example_model
          [(''R1'', 1, 2), (''RX'', 0, 0)] [(''atp'', - 5, - 1)] = Inr t"
  by (simp add: adjust_model_def example_model_def has_id_def get_by_id_def
        set_reaction_bounds_def set_bounds_def example_bounds_calls Let_def)

theorem adjust_model_sets_bounds_witness:
  "\<exists>t r v. adjust_model example_library example_model
              [(''R1'', 1, 2), (''RX'', 0, 0)] [(''atp'', - 5, - 1)] = Inr t
     \<and> reactions t ''R1'' = Some r \<and> bounds r = (1, 2)
     \<and> log_concentration t ''atp_c'' = Some v
     \<and> var_lb (variable v) = - 5 \<and> var_ub (variable v) = - 1"
proof -
  from example_adjust_returns obtain t
    where t: "adjust_model example_library example_model
                [(''R1'', 1, 2), (''RX'', 0, 0)] [(''atp'', - 5, - 1)] = Inr t"
    by blast
  note both = adjust_model_sets_bounds [OF t]
  from both [THEN conjunct1, rule_format, of "[]" "''R1''" 1 2 "[(''RX'', 0, 0)]"]
  have r: "\<exists>r. reactions t ''R1'' = Some r \<and> bounds r = (1, 2)"
    by (simp add: example_model_has)
  from both [THEN conjunct2, rule_format,
             of "[]" "''atp''" "- 5" "- 1" "[]" "[]" "''c''" "[''e'']"]
  have v: "\<exists>v. log_concentration t ''atp_c'' = Some v
             \<and> var_lb (variable v) = - 5 \<and> var_ub (variable v) = - 1"
    by (simp add: example_model_has)
  from t r v show ?thesis by blast
qed

theorem adjust_model_skips_absent_witness:
  "adjust_model example_library example_model [(''RX'', 0, 1)] [] = Inr example_model
   \<and> adjust_model example_library example_model
        [(''R1'', 1, 2), (''RX'', 0, 1)] [(''atp'', - 5, - 1)]
      = adjust_model example_library example_model [(''R1'', 1, 2)] [(''atp'', - 5, - 1)]
   \<and> adjust_model example_library example_model [] [(''nadh'', 0, 1)] = Inr example_model
   \<and> adjust_model example_library example_model
        [(''R1'', 1, 2)] [(''nadh'', 0, 1), (''atp'', - 5, - 1)]
      = adjust_model example_library example_model [(''R1'', 1, 2)] [(''atp'', - 5, - 1)]"
proof -
  note rxn = adjust_model_skips_absent
      [of example_model "''RX''" example_library 0 1 "[(''R1'', 1, 2)]" "[]"
          "[(''atp'', - 5, - 1)]", THEN conjunct1]
  note lc = adjust_model_skips_absent
      [of example_model _ example_library 0 1 "[]" "[(''atp'', - 5, - 1)]" _
          "''nadh''" "[(''R1'', 1, 2)]", THEN conjunct2]
  from rxn lc show ?thesis
    by (simp add: example_model_has)
qed

theorem adjust_model_writes_parent_witness:
  "\<exists>t r p. adjust_model example_library example_model [(''R1'', 1, 2)] [] = Inr t
     \<and> reactions t ''R1'' = Some r \<and> bounds r = (1, 2)
     \<and> cobra_reactions (parent t) ''R1'' = Some p \<and> bounds p = (1, 2)"
proof -
  have "\<exists>t. adjust_model example_library example_model [(''R1'', 1, 2)] [] = Inr t"
    by (simp add: adjust_model_def example_model_def has_id_def get_by_id_def
          set_reaction_bounds_def example_bounds_calls Let_def)
  then obtain t
    where t: "adjust_model example_library example_model [(''R1'', 1, 2)] [] = Inr t"
    by blast
  from adjust_model_writes_parent [OF t, of "[]" "''R1''" 1 2 "[]"]
  have "\<exists>r p. reactions t ''R1'' = Some r \<and> bounds r = (1, 2)
          \<and> cobra_reactions (parent t) ''R1'' = Some p \<and> bounds p = (1, 2)"
    by (simp add: example_model_has)
  with t show ?thesis by blast
qed

section \<open>The solver configuration of \<open>create_model\<close>\<close>

text \<open>\<open>create_model\<close> on supplied data, as the chain of its calls.\<close>

lemma create_model_supplied:
  "create_model L model_name (Some td) (Some lx) (Some cd) lg =
     (case silence_pytfa L ''thermomodel_None'' lg of
        Inl e \<Rightarrow> Inl e
      | Inr lg \<Rightarrow>
     (case silence_pytfa L (''thermomodel_'' @ model_name) lg of
        Inl e \<Rightarrow> Inl e
      | Inr lg \<Rightarrow>
     (case load_cbm L model_name of
        Inl e \<Rightarrow> Inl e
      | Inr cmodel \<Rightarrow>
     (case raised (ThermoModel L td cmodel) of
        Inl e \<Rightarrow> Inl e
      | Inr tmodel \<Rightarrow>
     (case raised (annotate_from_lexicon L (tmodel\<lparr>name := model_name\<rparr>) lx) of
        Inl e \<Rightarrow> Inl e
      | Inr tmodel \<Rightarrow>
     (case raised (apply_compartment_data L tmodel cd) of
        Inl e \<Rightarrow> Inl e
      | Inr tmodel \<Rightarrow>
     (case raised (prepare L
             (tmodel\<lparr>solver := (solver tmodel)
                \<lparr>Params_NumericFocus :=
                   (if interface_name (solver tmodel) = ''optlang.gurobi_interface''
                    then Some 3 else Params_NumericFocus (solver tmodel)),
                 tolerances_feasibility := 1 / 10 ^ 9,
                 configuration_presolve := Presolve True\<rparr>\<rparr>)) of
        Inl e \<Rightarrow> Inl e
      | Inr tmodel \<Rightarrow>
     (case raised (convert L tmodel False) of
        Inl e \<Rightarrow> Inl e
      | Inr tmodel \<Rightarrow> Inr (tmodel, lg)))))))))"
  by (simp add: create_model_def Let_def split: sum.splits)

lemma create_model_Inr_supplied:
  assumes "create_model L model_name thermo_data lexicon compartment_data lg = Inr result"
  shows "\<exists>td lx cd. create_model L model_name (Some td) (Some lx) (Some cd) lg = Inr result"
proof (cases "thermo_data = None \<and> lexicon = None \<and> compartment_data = None")
  case True
  with assms show ?thesis
    by (auto simp: create_model_all_None split: sum.splits prod.splits)
next
  case False
  show ?thesis
  proof (cases "thermo_data = None \<or> lexicon = None \<or> compartment_data = None")
    case True
    from create_model_mixed [OF True False, of L model_name lg] assms show ?thesis by simp
  next
    case False
    with assms show ?thesis by auto
  qed
qed

text \<open>
  Claim C6. On every successful call \<open>create_model\<close> stores the solver flags on the
  model it returns: the model that \<open>apply_compartment_data\<close> gave back gets the feasibility
  tolerance \<open>1e-9\<close> and presolve \<open>True\<close>, and \<open>NumericFocus\<close> 3 exactly when its solver
  interface is \<open>optlang.gurobi_interface\<close>, and is then prepared, converted and returned.
  Where \<open>prepare\<close> and \<open>convert\<close> leave the solver object alone, these are the values on
  the returned model: the tolerance, presolve, and \<open>NumericFocus\<close>, which is 3 under
  Gurobi's interface and otherwise what it was.
\<close>

theorem create_model_configures_solver:
  assumes "create_model L model_name thermo_data lexicon compartment_data lg
             = Inr (tmodel, lg')"
  shows "\<exists>before prepared.
           (\<exists>t cd. apply_compartment_data L t cd = Inr before)
           \<and> prepare L
               (before\<lparr>solver := (solver before)
                  \<lparr>Params_NumericFocus :=
                     (if interface_name (solver before) = ''optlang.gurobi_interface''
                      then Some 3 else Params_NumericFocus (solver before)),
                   tolerances_feasibility := 1 / 10 ^ 9,
                   configuration_presolve := Presolve True\<rparr>\<rparr>) = Inr prepared
           \<and> convert L prepared False = Inr tmodel
           \<and> ((\<forall>t t'. prepare L t = Inr t' \<longrightarrow> solver t' = solver t)
               \<and> (\<forall>t verbose t'. convert L t verbose = Inr t' \<longrightarrow> solver t' = solver t) \<longrightarrow>
                 tolerances_feasibility (solver tmodel) = 1 / 10 ^ 9
                 \<and> configuration_presolve (solver tmodel) = Presolve True
                 \<and> interface_name (solver tmodel) = interface_name (solver before)
                 \<and> (interface_name (solver before) = ''optlang.gurobi_interface'' \<longrightarrow>
                      Params_NumericFocus (solver tmodel) = Some 3)
                 \<and> (interface_name (solver before) \<noteq> ''optlang.gurobi_interface'' \<longrightarrow>
                      Params_NumericFocus (solver tmodel)
                        = Params_NumericFocus (solver before)))"
proof -
  from create_model_Inr_supplied [OF assms] obtain td lx cd
    where "create_model L model_name (Some td) (Some lx) (Some cd) lg = Inr (tmodel, lg')"
    by blast
  then obtain t before prepared
    where a: "apply_compartment_data L t cd = Inr before"
      and p: "prepare L
               (before\<lparr>solver := (solver before)
                  \<lparr>Params_NumericFocus :=
                     (if interface_name (solver before) = ''optlang.gurobi_interface''
                      then Some 3 else Params_NumericFocus (solver before)),
                   tolerances_feasibility := 1 / 10 ^ 9,
                   configuration_presolve := Presolve True\<rparr>\<rparr>) = Inr prepared"
      and c: "convert L prepared False = Inr tmodel"
    unfolding create_model_supplied
    by (auto split: sum.splits)
  have "solver tmodel = (solver before)
                  \<lparr>Params_NumericFocus :=
                     (if interface_name (solver before) = ''optlang.gurobi_interface''
                      then Some 3 else Params_NumericFocus (solver before)),
                   tolerances_feasibility := 1 / 10 ^ 9,
                   configuration_presolve := Presolve True\<rparr>"
    if "\<forall>t t'. prepare L t = Inr t' \<longrightarrow> solver t' = solver t"
      and "\<forall>t verbose t'. convert L t verbose = Inr t' \<longrightarrow> solver t' = solver t"
    using that(1) [rule_format, OF p] that(2) [rule_format, OF c] by simp
  then have "(\<forall>t t'. prepare L t = Inr t' \<longrightarrow> solver t' = solver t)
               \<and> (\<forall>t verbose t'. convert L t verbose = Inr t' \<longrightarrow> solver t' = solver t) \<longrightarrow>
                 tolerances_feasibility (solver tmodel) = 1 / 10 ^ 9
                 \<and> configuration_presolve (solver tmodel) = Presolve True
                 \<and> interface_name (solver tmodel) = interface_name (solver before)
                 \<and> (interface_name (solver before) = ''optlang.gurobi_interface'' \<longrightarrow>
                      Params_NumericFocus (solver tmodel) = Some 3)
                 \<and> (interface_name (solver before) \<noteq> ''optlang.gurobi_interface'' \<longrightarrow>
                      Params_NumericFocus (solver tmodel)
                        = Params_NumericFocus (solver before))"
    by simp
  with a p c show ?thesis by blast
qed

lemma path_pkg_static:
  "static_file L = ''/pkg/static/__init__.py'' \<Longrightarrow>
   path L f = (if f \<noteq> [] \<and> hd f = CHR ''/'' then f else ''/pkg/static/'' @ f)"
  by (simp add: path_def dirname_example os_path_join_def sep_def)

lemma gurobi_library_calls:
  "static_file gurobi_library = ''/pkg/static/__init__.py''"
  "load_thermoDB gurobi_library ''/pkg/static/thermo_data.thermodb'' = Inr 1"
  "read_lexicon gurobi_library ''/pkg/static/small_ecoli/lexicon.csv'' = Inr 2"
  "read_compartment_data gurobi_library ''/pkg/static/small_ecoli/compartment_data.json''
     = Inr 3"
  "load_json_model gurobi_library ''/pkg/static/small_ecoli.json'' = Inr (parent example_model)"
  "ThermoModel gurobi_library td cm
     = Inr (example_model
              \<lparr>solver := (solver example_model)
                           \<lparr>interface_name := ''optlang.gurobi_interface''\<rparr>,
               reactions := cobra_reactions cm, parent := cm\<rparr>)"
  "annotate_from_lexicon gurobi_library t lx = Inr t"
  "apply_compartment_data gurobi_library t cd = Inr t"
  "prepare gurobi_library t = Inr t"
  "convert gurobi_library t verbose = Inr t"
  "get_bistream_logger gurobi_library n lg
     = Inr (lg(n := \<lparr>is_FileHandler = False, level = 10\<rparr>
                     # \<lparr>is_FileHandler = True, level = 10\<rparr> # lg n))"
  by (simp_all add: gurobi_library_def example_library_def)

lemma gurobi_create_model:
  "\<exists>t lg. create_model gurobi_library ''small_ecoli'' None None None no_handlers = Inr (t, lg)
     \<and> interface_name (solver t) = ''optlang.gurobi_interface''"
  by (simp add: create_model_def load_data_def load_cbm_def silence_pytfa_def
        path_pkg_static os_path_join_def sep_def gurobi_library_calls Let_def)

theorem create_model_configures_solver_witness:
  "\<exists>t lg. create_model gurobi_library ''small_ecoli'' None None None no_handlers = Inr (t, lg)
     \<and> tolerances_feasibility (solver t) = 1 / 10 ^ 9
     \<and> configuration_presolve (solver t) = Presolve True
     \<and> Params_NumericFocus (solver t) = Some 3"
proof -
  from gurobi_create_model obtain t lg
    where run: "create_model gurobi_library ''small_ecoli'' None None None no_handlers
                  = Inr (t, lg)"
      and gurobi: "interface_name (solver t) = ''optlang.gurobi_interface''"
    by blast
  from create_model_configures_solver [OF run] gurobi
  have "tolerances_feasibility (solver t) = 1 / 10 ^ 9
     \<and> configuration_presolve (solver t) = Presolve True
     \<and> Params_NumericFocus (solver t) = Some 3"
    by (auto simp: gurobi_library_calls)
  with run show ?thesis by blast
qed

section \<open>Nothing is caught\<close>

lemma silence_pytfa_Inl:
  "get_bistream_logger L n lg = Inl e \<Longrightarrow> silence_pytfa L n lg = Inl (Raised e)"
  by (simp add: silence_pytfa_def)

lemma silence_pytfa_Inl_Raised: "silence_pytfa L n lg = Inl x \<Longrightarrow> \<exists>e. x = Raised e"
  by (auto simp: silence_pytfa_def raised_eq_Inl split: sum.splits)

lemma load_cbm_Inl_Raised: "load_cbm L m = Inl x \<Longrightarrow> \<exists>e. x = Raised e"
  by (auto simp: load_cbm_def raised_eq_Inl)

lemma load_data_Inl_Raised: "load_data L m = Inl x \<Longrightarrow> \<exists>e. x = Raised e"
  by (auto simp: load_data_def raised_eq_Inl split: sum.splits)

lemma create_model_supplied_Inl_Raised:
  "create_model L m (Some a) (Some b) (Some c) lg = Inl x \<Longrightarrow> \<exists>e. x = Raised e"
  unfolding create_model_supplied
  by (auto simp: raised_eq_Inl split: sum.splits
        dest: silence_pytfa_Inl_Raised load_cbm_Inl_Raised)

lemma create_model_Inl:
  assumes "create_model L m td lx cd lg = Inl x"
  shows "x = ValueError ''Not all required data supplied.'' \<or> (\<exists>e. x = Raised e)"
proof (cases "td = None \<and> lx = None \<and> cd = None")
  case True
  with assms show ?thesis
    by (auto simp: create_model_all_None split: sum.splits prod.splits
          dest: load_data_Inl_Raised create_model_supplied_Inl_Raised)
next
  case False
  show ?thesis
  proof (cases "td = None \<or> lx = None \<or> cd = None")
    case True
    from create_model_mixed [OF True False, of L m lg] assms show ?thesis by simp
  next
    case False
    with assms show ?thesis by (auto dest: create_model_supplied_Inl_Raised)
  qed
qed

lemma adjust_model_reactions_Inl:
  "adjust_model_reactions L tm rows = Inl x \<Longrightarrow> (\<exists>i. x = KeyError i) \<or> (\<exists>e. x = Raised e)"
proof (induction rows arbitrary: tm)
  case Nil
  then show ?case by simp
next
  case (Cons row rows)
  obtain i lb ub where row: "row = (i, lb, ub)" by (cases row) auto
  note run = Cons.prems [unfolded row]
  show ?case
  proof (cases "has_id (reactions tm) i")
    case False
    with run have "adjust_model_reactions L tm rows = Inl x" by simp
    then show ?thesis by (rule Cons.IH)
  next
    case True
    then obtain r where r: "reactions tm i = Some r"
      by (auto simp: has_id_def)
    show ?thesis
    proof (cases "cobra_reactions (parent tm) i")
      case None
      with run True show ?thesis by (auto simp: get_by_id_def)
    next
      case (Some p)
      show ?thesis
      proof (cases "reaction_bounds_refused L p lb ub")
        case refused: (Some e)
        with run True Some show ?thesis
          by (auto simp: get_by_id_def set_reaction_bounds_def)
      next
        case accepted: None
        show ?thesis
        proof (cases "reaction_bounds_refused L r lb ub")
          case (Some e)
          with run True \<open>cobra_reactions (parent tm) i = Some p\<close> accepted r show ?thesis
            by (auto simp: get_by_id_def set_reaction_bounds_def)
        next
          case None
          with run True Some accepted r
          have "adjust_model_reactions L
                  (tm\<lparr>parent := (parent tm)\<lparr>cobra_reactions :=
                                    (cobra_reactions (parent tm))(i \<mapsto> p\<lparr>bounds := (lb, ub)\<rparr>)\<rparr>,
                      reactions := (reactions tm)(i \<mapsto> r\<lparr>bounds := (lb, ub)\<rparr>)\<rparr>) rows
                 = Inl x"
            by (simp add: get_by_id_def set_reaction_bounds_def)
          then show ?thesis by (rule Cons.IH)
        qed
      qed
    qed
  qed
qed

lemma adjust_model_compartments_Inl:
  "adjust_model_compartments L tm met lb ub cs = Inl x \<Longrightarrow> \<exists>e. x = Raised e"
proof (induction cs arbitrary: tm)
  case Nil
  then show ?case by simp
next
  case (Cons c cs)
  note run = Cons.prems
  show ?case
  proof (cases "log_concentration tm (met @ ''_'' @ c)")
    case None
    with run have "adjust_model_compartments L tm met lb ub cs = Inl x"
      by (simp add: has_id_def)
    then show ?thesis by (rule Cons.IH)
  next
    case (Some v)
    show ?thesis
    proof (cases "variable_bounds_refused L (variable v) lb ub")
      case refused: (Some e)
      with run Some show ?thesis
        by (auto simp: has_id_def get_by_id_def set_bounds_def)
    next
      case None
      with run Some
      have "adjust_model_compartments L
              (tm\<lparr>log_concentration :=
                    (log_concentration tm)
                      (met @ ''_'' @ c \<mapsto>
                         v\<lparr>variable := (variable v)\<lparr>var_lb := lb, var_ub := ub\<rparr>\<rparr>)\<rparr>)
              met lb ub cs = Inl x"
        by (simp add: has_id_def get_by_id_def set_bounds_def)
      then show ?thesis by (rule Cons.IH)
    qed
  qed
qed

lemma adjust_model_log_concentrations_Inl:
  "adjust_model_log_concentrations L tm rows = Inl x \<Longrightarrow> \<exists>e. x = Raised e"
proof (induction rows arbitrary: tm)
  case Nil
  then show ?case by simp
next
  case (Cons row rows)
  obtain met lb ub where row: "row = (met, lb, ub)" by (cases row) auto
  note run = Cons.prems [unfolded row]
  show ?case
  proof (cases "adjust_model_compartments L tm met lb ub (compartments tm)")
    case (Inl e)
    with run have "e = x" by simp
    with Inl show ?thesis by (auto dest: adjust_model_compartments_Inl)
  next
    case (Inr s)
    with run have "adjust_model_log_concentrations L s rows = Inl x" by simp
    then show ?thesis by (rule Cons.IH)
  qed
qed

lemma adjust_model_Inl:
  assumes "adjust_model L tm rxn_bounds lc_bounds = Inl x"
  shows "(\<exists>i. x = KeyError i) \<or> (\<exists>e. x = Raised e)"
proof (cases "adjust_model_reactions L tm rxn_bounds")
  case (Inl e)
  with assms have "e = x" by (simp add: adjust_model_def)
  with Inl show ?thesis using adjust_model_reactions_Inl by blast
next
  case (Inr s)
  with assms have "adjust_model_log_concentrations L s lc_bounds = Inl x"
    by (simp add: adjust_model_def)
  then show ?thesis using adjust_model_log_concentrations_Inl by blast
qed

text \<open>
  Claim C7. Apart from the argument check of \<open>create_model\<close>, nothing in \<open>io.py\<close> catches
  or changes an exception. Whatever a library call raises (loading the model or the data,
  getting a logger, wrapping, annotating, applying compartment data, \<open>prepare\<close>,
  \<open>convert\<close>, a lookup, a bound setter) is what the function that made the call raises,
  as it is, and the functions raise nothing else.
\<close>

theorem failures_propagate:
  "(load_json_model L (path L (m @ ''.json'')) = Inl e \<longrightarrow> load_cbm L m = Inl (Raised e))
   \<and> (load_thermoDB L (path L ''thermo_data.thermodb'') = Inl e \<longrightarrow>
        load_data L m = Inl (Raised e))
   \<and> (load_thermoDB L (path L ''thermo_data.thermodb'') = Inr td
      \<and> read_lexicon L (path L (os_path_join m ''lexicon.csv'')) = Inl e \<longrightarrow>
        load_data L m = Inl (Raised e))
   \<and> (load_thermoDB L (path L ''thermo_data.thermodb'') = Inr td
      \<and> read_lexicon L (path L (os_path_join m ''lexicon.csv'')) = Inr lx
      \<and> read_compartment_data L (path L (os_path_join m ''compartment_data.json'')) = Inl e \<longrightarrow>
        load_data L m = Inl (Raised e))
   \<and> (load_data L m = Inl x \<longrightarrow> create_model L m None None None lg = Inl x)
   \<and> (get_bistream_logger L ''thermomodel_None'' lg = Inl e \<longrightarrow>
        create_model L m (Some td) (Some lx) (Some cd) lg = Inl (Raised e))
   \<and> (silence_pytfa L ''thermomodel_None'' lg = Inr lg1 \<longrightarrow>
        (get_bistream_logger L (''thermomodel_'' @ m) lg1 = Inl e \<longrightarrow>
           create_model L m (Some td) (Some lx) (Some cd) lg = Inl (Raised e))
      \<and> (silence_pytfa L (''thermomodel_'' @ m) lg1 = Inr lg2 \<longrightarrow>
        (load_cbm L m = Inl x \<longrightarrow>
           create_model L m (Some td) (Some lx) (Some cd) lg = Inl x)
      \<and> (load_cbm L m = Inr cmodel \<longrightarrow>
        (ThermoModel L td cmodel = Inl e \<longrightarrow>
           create_model L m (Some td) (Some lx) (Some cd) lg = Inl (Raised e))
      \<and> (ThermoModel L td cmodel = Inr t0 \<longrightarrow>
        (annotate_from_lexicon L (t0\<lparr>name := m\<rparr>) lx = Inl e \<longrightarrow>
           create_model L m (Some td) (Some lx) (Some cd) lg = Inl (Raised e))
      \<and> (annotate_from_lexicon L (t0\<lparr>name := m\<rparr>) lx = Inr t1 \<longrightarrow>
        (apply_compartment_data L t1 cd = Inl e \<longrightarrow>
           create_model L m (Some td) (Some lx) (Some cd) lg = Inl (Raised e))
      \<and> (apply_compartment_data L t1 cd = Inr t2 \<longrightarrow>
        (prepare L
           (t2\<lparr>solver := (solver t2)
              \<lparr>Params_NumericFocus :=
                 (if interface_name (solver t2) = ''optlang.gurobi_interface''
                  then Some 3 else Params_NumericFocus (solver t2)),
               tolerances_feasibility := 1 / 10 ^ 9,
               configuration_presolve := Presolve True\<rparr>\<rparr>) = Inl e \<longrightarrow>
           create_model L m (Some td) (Some lx) (Some cd) lg = Inl (Raised e))
      \<and> (prepare L
           (t2\<lparr>solver := (solver t2)
              \<lparr>Params_NumericFocus :=
                 (if interface_name (solver t2) = ''optlang.gurobi_interface''
                  then Some 3 else Params_NumericFocus (solver t2)),
               tolerances_feasibility := 1 / 10 ^ 9,
               configuration_presolve := Presolve True\<rparr>\<rparr>) = Inr t3
          \<and> convert L t3 False = Inl e \<longrightarrow>
           create_model L m (Some td) (Some lx) (Some cd) lg = Inl (Raised e))))))))
   \<and> (create_model L m thermo_data lexicon compartment_data lg = Inl x \<longrightarrow>
        x = ValueError ''Not all required data supplied.'' \<or> (\<exists>e'. x = Raised e'))
   \<and> (adjust_model_reactions L tm pre = Inr s \<and> has_id (reactions s) i \<longrightarrow>
        (cobra_reactions (parent s) i = None \<longrightarrow>
           adjust_model L tm (pre @ (i, lb, ub) # post) lc_bounds = Inl (KeyError i))
      \<and> (cobra_reactions (parent s) i = Some p \<longrightarrow>
        (reaction_bounds_refused L p lb ub = Some e \<longrightarrow>
           adjust_model L tm (pre @ (i, lb, ub) # post) lc_bounds = Inl (Raised e))
      \<and> (reaction_bounds_refused L p lb ub = None \<and> reactions s i = Some r
          \<and> reaction_bounds_refused L r lb ub = Some e \<longrightarrow>
           adjust_model L tm (pre @ (i, lb, ub) # post) lc_bounds = Inl (Raised e))))
   \<and> (adjust_model L tm rxn_bounds pre = Inr s
      \<and> adjust_model_compartments L s met lb ub before = Inr s'
      \<and> compartments s = before @ c # after
      \<and> log_concentration s' (met @ ''_'' @ c) = Some v
      \<and> variable_bounds_refused L (variable v) lb ub = Some e \<longrightarrow>
        adjust_model L tm rxn_bounds (pre @ (met, lb, ub) # post) = Inl (Raised e))
   \<and> (adjust_model L tm rxn_bounds lc_bounds = Inl x \<longrightarrow>
        (\<exists>j. x = KeyError j) \<or> (\<exists>e'. x = Raised e'))
   \<and> (item \<in> set (list_attr self) \<and> create_model L item None None None lg = Inl x \<longrightarrow>
        ModelFactory_getattr L self item lg = Inl x)"
proof (intro conjI impI; (elim conjE)?)
  show "load_cbm L m = Inl (Raised e)"
    if "load_json_model L (path L (m @ ''.json'')) = Inl e"
    using that by (simp add: load_cbm_def)
  show "load_data L m = Inl (Raised e)"
    if "load_thermoDB L (path L ''thermo_data.thermodb'') = Inl e"
    using that by (simp add: load_data_def)
  show "load_data L m = Inl (Raised e)"
    if "load_thermoDB L (path L ''thermo_data.thermodb'') = Inr td"
      "read_lexicon L (path L (os_path_join m ''lexicon.csv'')) = Inl e"
    using that by (simp add: load_data_def)
  show "load_data L m = Inl (Raised e)"
    if "load_thermoDB L (path L ''thermo_data.thermodb'') = Inr td"
      "read_lexicon L (path L (os_path_join m ''lexicon.csv'')) = Inr lx"
      "read_compartment_data L (path L (os_path_join m ''compartment_data.json'')) = Inl e"
    using that by (simp add: load_data_def)
  show "create_model L m None None None lg = Inl x" if "load_data L m = Inl x"
    using that by (simp add: create_model_all_None)
  show "create_model L m (Some td) (Some lx) (Some cd) lg = Inl (Raised e)"
    if "get_bistream_logger L ''thermomodel_None'' lg = Inl e"
    using silence_pytfa_Inl [OF that] by (simp add: create_model_supplied)
  show "create_model L m (Some td) (Some lx) (Some cd) lg = Inl (Raised e)"
    if "silence_pytfa L ''thermomodel_None'' lg = Inr lg1"
      "get_bistream_logger L (''thermomodel_'' @ m) lg1 = Inl e"
    using that(1) silence_pytfa_Inl [OF that(2)] by (simp add: create_model_supplied)
  show "create_model L m (Some td) (Some lx) (Some cd) lg = Inl x"
    if "silence_pytfa L ''thermomodel_None'' lg = Inr lg1"
      "silence_pytfa L (''thermomodel_'' @ m) lg1 = Inr lg2"
      "load_cbm L m = Inl x"
    using that by (simp add: create_model_supplied)
  show "create_model L m (Some td) (Some lx) (Some cd) lg = Inl (Raised e)"
    if "silence_pytfa L ''thermomodel_None'' lg = Inr lg1"
      "silence_pytfa L (''thermomodel_'' @ m) lg1 = Inr lg2"
      "load_cbm L m = Inr cmodel"
      "ThermoModel L td cmodel = Inl e"
    using that by (simp add: create_model_supplied)
  show "create_model L m (Some td) (Some lx) (Some cd) lg = Inl (Raised e)"
    if "silence_pytfa L ''thermomodel_None'' lg = Inr lg1"
      "silence_pytfa L (''thermomodel_'' @ m) lg1 = Inr lg2"
      "load_cbm L m = Inr cmodel"
      "ThermoModel L td cmodel = Inr t0"
      "annotate_from_lexicon L (t0\<lparr>name := m\<rparr>) lx = Inl e"
    using that by (simp add: create_model_supplied)
  show "create_model L m (Some td) (Some lx) (Some cd) lg = Inl (Raised e)"
    if "silence_pytfa L ''thermomodel_None'' lg = Inr lg1"
      "silence_pytfa L (''thermomodel_'' @ m) lg1 = Inr lg2"
      "load_cbm L m = Inr cmodel"
      "ThermoModel L td cmodel = Inr t0"
      "annotate_from_lexicon L (t0\<lparr>name := m\<rparr>) lx = Inr t1"
      "apply_compartment_data L t1 cd = Inl e"
    using that by (simp add: create_model_supplied)
  show "create_model L m (Some td) (Some lx) (Some cd) lg = Inl (Raised e)"
    if "silence_pytfa L ''thermomodel_None'' lg = Inr lg1"
      "silence_pytfa L (''thermomodel_'' @ m) lg1 = Inr lg2"
      "load_cbm L m = Inr cmodel"
      "ThermoModel L td cmodel = Inr t0"
      "annotate_from_lexicon L (t0\<lparr>name := m\<rparr>) lx = Inr t1"
      "apply_compartment_data L t1 cd = Inr t2"
      "prepare L
           (t2\<lparr>solver := (solver t2)
              \<lparr>Params_NumericFocus :=
                 (if interface_name (solver t2) = ''optlang.gurobi_interface''
                  then Some 3 else Params_NumericFocus (solver t2)),
               tolerances_feasibility := 1 / 10 ^ 9,
               configuration_presolve := Presolve True\<rparr>\<rparr>) = Inl e"
    using that by (simp add: create_model_supplied)
  show "create_model L m (Some td) (Some lx) (Some cd) lg = Inl (Raised e)"
    if "silence_pytfa L ''thermomodel_None'' lg = Inr lg1"
      "silence_pytfa L (''thermomodel_'' @ m) lg1 = Inr lg2"
      "load_cbm L m = Inr cmodel"
      "ThermoModel L td cmodel = Inr t0"
      "annotate_from_lexicon L (t0\<lparr>name := m\<rparr>) lx = Inr t1"
      "apply_compartment_data L t1 cd = Inr t2"
      "prepare L
           (t2\<lparr>solver := (solver t2)
              \<lparr>Params_NumericFocus :=
                 (if interface_name (solver t2) = ''optlang.gurobi_interface''
                  then Some 3 else Params_NumericFocus (solver t2)),
               tolerances_feasibility := 1 / 10 ^ 9,
               configuration_presolve := Presolve True\<rparr>\<rparr>) = Inr t3"
      "convert L t3 False = Inl e"
    using that by (simp add: create_model_supplied)
  show "x = ValueError ''Not all required data supplied.'' \<or> (\<exists>e'. x = Raised e')"
    if "create_model L m thermo_data lexicon compartment_data lg = Inl x"
    using create_model_Inl [OF that] .
  show "adjust_model L tm (pre @ (i, lb, ub) # post) lc_bounds = Inl (KeyError i)"
    if "adjust_model_reactions L tm pre = Inr s" "has_id (reactions s) i"
      "cobra_reactions (parent s) i = None"
    using that by (simp add: adjust_model_def reactions_append get_by_id_def)
  show "adjust_model L tm (pre @ (i, lb, ub) # post) lc_bounds = Inl (Raised e)"
    if "adjust_model_reactions L tm pre = Inr s" "has_id (reactions s) i"
      "cobra_reactions (parent s) i = Some p" "reaction_bounds_refused L p lb ub = Some e"
    using that
    by (simp add: adjust_model_def reactions_append get_by_id_def set_reaction_bounds_def)
  show "adjust_model L tm (pre @ (i, lb, ub) # post) lc_bounds = Inl (Raised e)"
    if "adjust_model_reactions L tm pre = Inr s" "has_id (reactions s) i"
      "cobra_reactions (parent s) i = Some p" "reaction_bounds_refused L p lb ub = None"
      "reactions s i = Some r" "reaction_bounds_refused L r lb ub = Some e"
    using that
    by (simp add: adjust_model_def reactions_append get_by_id_def set_reaction_bounds_def)
  show "adjust_model L tm rxn_bounds (pre @ (met, lb, ub) # post) = Inl (Raised e)"
    if "adjust_model L tm rxn_bounds pre = Inr s"
      "adjust_model_compartments L s met lb ub before = Inr s'"
      "compartments s = before @ c # after"
      "log_concentration s' (met @ ''_'' @ c) = Some v"
      "variable_bounds_refused L (variable v) lb ub = Some e"
  proof -
    from that(1) obtain s0 where s0: "adjust_model_reactions L tm rxn_bounds = Inr s0"
      and s: "adjust_model_log_concentrations L s0 pre = Inr s"
      by (auto simp: adjust_model_Inr)
    have "adjust_model_compartments L s met lb ub (before @ c # after) = Inl (Raised e)"
      using that(2,4,5)
      by (simp add: compartments_append has_id_def get_by_id_def set_bounds_def)
    then show ?thesis
      by (simp add: adjust_model_def s0 log_concentrations_append s that(3))
  qed
  show "(\<exists>j. x = KeyError j) \<or> (\<exists>e'. x = Raised e')"
    if "adjust_model L tm rxn_bounds lc_bounds = Inl x"
    using adjust_model_Inl [OF that] .
  show "ModelFactory_getattr L self item lg = Inl x"
    if "item \<in> set (list_attr self)" "create_model L item None None None lg = Inl x"
    using that by (simp add: ModelFactory_getattr_def)
qed

lemma example_load_json_model:
  "load_json_model example_library p
     = (if p = ''/pkg/static/small_ecoli.json'' then Inr (parent example_model)
        else Inl ''no such file'')"
  by (simp add: example_library_def)

lemma example_model_R1:
  "cobra_reactions (parent example_model) ''R1'' = Some \<lparr>bounds = (0, 10)\<rparr>"
  by (simp add: example_model_def)

theorem failures_propagate_witness:
  "load_cbm example_library ''missing'' = Inl (Raised ''no such file'')
   \<and> adjust_model example_library example_model [(''R1'', 5, 1)] []
       = Inl (Raised ''lb > ub'')"
proof -
  note loading = failures_propagate
      [where L = example_library and m = "''missing''" and e = "''no such file''",
       THEN conjunct1]
  note setting = failures_propagate
      [where L = example_library and tm = example_model and pre = "[]"
         and s = example_model and i = "''R1''" and p = "\<lparr>bounds = (0, 10)\<rparr>"
         and lb = 5 and ub = 1 and e = "''lb > ub''" and post = "[]" and lc_bounds = "[]",
       THEN conjunct2, THEN conjunct2, THEN conjunct2, THEN conjunct2, THEN conjunct2,
       THEN conjunct2, THEN conjunct2, THEN conjunct2, THEN conjunct1]
  have "load_cbm example_library ''missing'' = Inl (Raised ''no such file'')"
    using loading by (simp add: example_path example_load_json_model)
  moreover have "adjust_model example_library example_model [(''R1'', 5, 1)] []
       = Inl (Raised ''lb > ub'')"
    using setting
    by (simp add: example_model_has example_model_R1 example_bounds_calls
          del: adjust_model_no_lc)
  ultimately show ?thesis by simp
qed

section \<open>The model factory\<close>

lemma model_name_from_path:
  "hd (str_split (os_path_basename p) CHR ''.'') = spec_model_name p"
  by (simp add: hd_str_split os_path_basename_eq spec_model_name_def sep_def)

lemma models_list:
  "list_attr (models L cls doc) = map spec_model_name (glob L (path L ''*.json''))"
  by (simp add: models_def ModelFactory_init_def model_name_from_path)

lemma object_getattribute_not_Model: "object_getattribute self item \<noteq> Inr (Model t)"
  by (simp add: object_getattribute_def split: option.splits)

lemma object_getattribute_Inl:
  "object_getattribute self item = Inl x \<Longrightarrow> x = AttributeError item"
  by (auto simp: object_getattribute_def split: option.splits if_splits)

lemma getattr_builtin_not_listed:
  fixes L :: "('td, 'lex, 'cd, 'e, 'n) library"
  assumes "item \<notin> set (list_attr self)"
  shows "getattr_builtin L self item lg =
           (case object_getattribute self item of
              Inl e \<Rightarrow> Inl e
            | Inr a \<Rightarrow> Inr (a, lg))"
proof (cases "object_getattribute self item :: 'e exn + ('n, 'a) attribute")
  case (Inl x)
  then have "x = AttributeError item" by (rule object_getattribute_Inl)
  with Inl assms show ?thesis
    by (simp add: getattr_builtin_def ModelFactory_getattr_def)
next
  case (Inr a)
  then show ?thesis by (simp add: getattr_builtin_def)
qed

text \<open>
  Claim C4, amended. The factory finds the packaged models by file name and offers them
  as attributes. \<open>__dir__\<close> returns, for the \<open>*.json\<close> files that \<open>glob\<close> finds in the
  static folder, their basenames cut at the first dot, and \<open>dir(models)\<close> is that list
  sorted. For every name in the list, \<open>__getattr__\<close> returns what \<open>create_model(name)\<close>
  returns or raises what it raises; and so does the access \<open>models.<name>\<close>, for every
  name in the list that normal lookup does not already find on the object (it finds
  \<open>_list\<close>, \<open>__doc__\<close> and what the class provides).
\<close>

theorem models_are_created_on_access:
  fixes L :: "('td, 'lex, 'cd, 'e, 'n) library"
  shows "ModelFactory_dir (models L cls doc) = map spec_model_name (glob L (path L ''*.json''))
   \<and> dir_builtin (models L cls doc)
       = sort (map spec_model_name (glob L (path L ''*.json'')))
   \<and> (\<forall>item\<in>set (ModelFactory_dir (models L cls doc)).
         ModelFactory_getattr L (models L cls doc) item lg
           = (case create_model L item None None None lg of
                Inl e \<Rightarrow> Inl e
              | Inr (tmodel, lg') \<Rightarrow> Inr (Model tmodel, lg'))
         \<and> (item \<noteq> ''_list'' \<and> item \<noteq> ''__doc__'' \<and> cls item = None \<longrightarrow>
              getattr_builtin L (models L cls doc) item lg
                = (case create_model L item None None None lg of
                     Inl e \<Rightarrow> Inl e
                   | Inr (tmodel, lg') \<Rightarrow> Inr (Model tmodel, lg'))))"
proof (intro conjI ballI impI)
  show "ModelFactory_dir (models L cls doc)
          = map spec_model_name (glob L (path L ''*.json''))"
    by (simp add: ModelFactory_dir_def models_list)
  then show "dir_builtin (models L cls doc)
       = sort (map spec_model_name (glob L (path L ''*.json'')))"
    by (simp add: dir_builtin_def)
next
  fix item
  assume "item \<in> set (ModelFactory_dir (models L cls doc))"
  then have listed: "item \<in> set (list_attr (models L cls doc))"
    by (simp add: ModelFactory_dir_def)
  then show hook: "ModelFactory_getattr L (models L cls doc) item lg
           = (case create_model L item None None None lg of
                Inl e \<Rightarrow> Inl e
              | Inr (tmodel, lg') \<Rightarrow> Inr (Model tmodel, lg'))"
    by (simp add: ModelFactory_getattr_def)
  assume "item \<noteq> ''_list'' \<and> item \<noteq> ''__doc__'' \<and> cls item = None"
  then have "(object_getattribute (models L cls doc) item :: 'e exn + ('n, 'a) attribute)
               = Inl (AttributeError item)"
    by (simp add: object_getattribute_def models_def ModelFactory_init_def)
  then show "getattr_builtin L (models L cls doc) item lg
                = (case create_model L item None None None lg of
                     Inl e \<Rightarrow> Inl e
                   | Inr (tmodel, lg') \<Rightarrow> Inr (Model tmodel, lg'))"
    using hook by (simp add: getattr_builtin_def)
qed

text \<open>
  Claim C10, amended. For an attribute name that is not in the factory's list, the access
  never attempts to create a model: \<open>__getattr__\<close> and the access itself give exactly
  what the normal object attribute lookup gives, whatever the library is. That is the
  attribute where the object has one of that name (as it has \<open>_list\<close>, and \<open>__doc__\<close>
  once line 178 has stored it), and \<open>AttributeError\<close> otherwise. So only names of the
  list ever reach \<open>create_model\<close>.
\<close>

theorem unlisted_names_use_normal_lookup:
  assumes "item \<notin> set (list_attr self)"
  shows "ModelFactory_getattr L self item lg
           = (case object_getattribute self item of
                Inl e \<Rightarrow> Inl e
              | Inr a \<Rightarrow> Inr (a, lg))
         \<and> getattr_builtin L self item lg
           = (case object_getattribute self item of
                Inl e \<Rightarrow> Inl e
              | Inr a \<Rightarrow> Inr (a, lg))
         \<and> (\<forall>tmodel lg'. getattr_builtin L self item lg \<noteq> Inr (Model tmodel, lg'))
         \<and> (item \<noteq> ''_list'' \<and> (item = ''__doc__'' \<longrightarrow> doc_attr self = None)
             \<and> class_attrs self item = None \<longrightarrow>
               getattr_builtin L self item lg = Inl (AttributeError item))"
proof (intro conjI allI impI)
  show "ModelFactory_getattr L self item lg
           = (case object_getattribute self item of
                Inl e \<Rightarrow> Inl e
              | Inr a \<Rightarrow> Inr (a, lg))"
    using assms by (simp add: ModelFactory_getattr_def)
  show access: "getattr_builtin L self item lg
           = (case object_getattribute self item of
                Inl e \<Rightarrow> Inl e
              | Inr a \<Rightarrow> Inr (a, lg))"
    using assms by (rule getattr_builtin_not_listed)
  show "getattr_builtin L self item lg \<noteq> Inr (Model tmodel, lg')" for tmodel lg'
    unfolding access
    using object_getattribute_not_Model [of self item tmodel]
    by (auto split: sum.splits)
  show "getattr_builtin L self item lg = Inl (AttributeError item)"
    if "item \<noteq> ''_list'' \<and> (item = ''__doc__'' \<longrightarrow> doc_attr self = None)
             \<and> class_attrs self item = None"
    unfolding access using that
    by (auto simp: object_getattribute_def)
qed

text \<open>The example installation, and one whose only model file is named \<open>_list.json\<close>.\<close>

lemma example_glob:
  "glob example_library ''/pkg/static/*.json''
     = [''/pkg/static/small_ecoli.json'', ''/pkg/static/iJO1366.json'']"
  by (simp add: example_library_def)

lemma example_model_names:
  "spec_model_name ''/pkg/static/small_ecoli.json'' = ''small_ecoli''"
  "spec_model_name ''/pkg/static/iJO1366.json'' = ''iJO1366''"
  "spec_model_name ''/pkg/static/_list.json'' = ''_list''"
  by (simp_all add: spec_model_name_def)

lemma example_sorted_names:
  "sort [''small_ecoli'', ''iJO1366''] = [''iJO1366'', ''small_ecoli'']"
  by code_simp

lemma example_factory_attrs:
  "list_attr example_factory = [''small_ecoli'', ''iJO1366'']"
  "doc_attr example_factory = Some ''A factory class''"
  "class_attrs example_factory = no_class_attrs"
  unfolding example_factory_def
  by (simp_all add: models_list example_path example_glob example_model_names)
     (simp_all add: models_def ModelFactory_init_def)

theorem models_are_created_on_access_witness:
  "ModelFactory_dir example_factory = [''small_ecoli'', ''iJO1366'']
   \<and> dir_builtin example_factory = [''iJO1366'', ''small_ecoli'']
   \<and> getattr_builtin example_library example_factory ''small_ecoli'' no_handlers
     = (case create_model example_library ''small_ecoli'' None None None no_handlers of
          Inl e \<Rightarrow> Inl e
        | Inr (tmodel, lg') \<Rightarrow> Inr (Model tmodel, lg'))"
proof -
  note all = models_are_created_on_access
      [of example_library no_class_attrs "''A factory class''" no_handlers,
       folded example_factory_def]
  have names: "ModelFactory_dir example_factory = [''small_ecoli'', ''iJO1366'']"
    using all [THEN conjunct1]
    by (simp add: example_path example_glob example_model_names)
  have sorted: "dir_builtin example_factory = [''iJO1366'', ''small_ecoli'']"
    using all [THEN conjunct2, THEN conjunct1]
    by (simp add: example_path example_glob example_model_names example_sorted_names)
  have "''small_ecoli'' \<in> set (ModelFactory_dir example_factory)"
    by (simp add: names)
  from all [THEN conjunct2, THEN conjunct2, rule_format, OF this, THEN conjunct2]
  have "getattr_builtin example_library example_factory ''small_ecoli'' no_handlers
     = (case create_model example_library ''small_ecoli'' None None None no_handlers of
          Inl e \<Rightarrow> Inl e
        | Inr (tmodel, lg') \<Rightarrow> Inr (Model tmodel, lg'))"
    by (simp add: no_class_attrs_def)
  with names sorted show ?thesis by simp
qed

lemma shadowing_library_calls:
  "static_file shadowing_library = ''/pkg/static/__init__.py''"
  "glob shadowing_library ''/pkg/static/*.json'' = [''/pkg/static/_list.json'']"
  "load_thermoDB shadowing_library ''/pkg/static/thermo_data.thermodb'' = Inr 1"
  "read_lexicon shadowing_library ''/pkg/static/_list/lexicon.csv'' = Inl ''no such file''"
  by (simp_all add: shadowing_library_def example_library_def)

theorem listed_name_found_by_normal_lookup:
  "''_list'' \<in> set (ModelFactory_dir shadowed_factory)
   \<and> getattr_builtin shadowing_library shadowed_factory ''_list'' no_handlers
     = Inr (Names [''_list''], no_handlers)
   \<and> create_model shadowing_library ''_list'' None None None no_handlers
     = Inl (Raised ''no such file'')"
  unfolding shadowed_factory_def
  by (simp add: ModelFactory_dir_def models_list getattr_builtin_def object_getattribute_def
        path_pkg_static shadowing_library_calls example_model_names
        create_model_def load_data_def os_path_join_def sep_def)

theorem unlisted_names_use_normal_lookup_witness:
  "getattr_builtin example_library example_factory ''prepare'' no_handlers
     = Inl (AttributeError ''prepare'')"
proof -
  have "''prepare'' \<notin> set (list_attr example_factory)"
    by (simp add: example_factory_attrs)
  from unlisted_names_use_normal_lookup
         [OF this, of example_library no_handlers,
          THEN conjunct2, THEN conjunct2, THEN conjunct2]
  show ?thesis
    by (simp add: example_factory_attrs no_class_attrs_def)
qed

theorem unlisted_attribute_is_returned:
  "''__doc__'' \<notin> set (list_attr example_factory)
   \<and> getattr_builtin example_library example_factory ''__doc__'' no_handlers
     = Inr (Doc ''A factory class'', no_handlers)"
  by (simp add: example_factory_attrs getattr_builtin_def object_getattribute_def)

section \<open>The handle of \<open>generate_test_data.py\<close>\<close>

lemma generate_test_data_cases:
  "(\<exists>e. generate_test_data S = ([], Some e)
        \<and> (set_option S ''mode.chained_assignment'' = None \<longrightarrow>
             open_file S ''test_data.obj'' ''wb'' \<noteq> None))
   \<or> (\<exists>e. generate_test_data S = ([Open ''test_data.obj'' ''wb''], Some e)
        \<and> set_option S ''mode.chained_assignment'' = None
        \<and> open_file S ''test_data.obj'' ''wb'' = None)
   \<or> (\<exists>e objects.
          generate_test_data S = ([Open ''test_data.obj'' ''wb'', Dump objects], Some e)
        \<and> set_option S ''mode.chained_assignment'' = None
        \<and> open_file S ''test_data.obj'' ''wb'' = None
        \<and> close_file S \<noteq> None)
   \<or> (\<exists>objects.
          generate_test_data S = ([Open ''test_data.obj'' ''wb'', Dump objects, Close], None)
        \<and> set_option S ''mode.chained_assignment'' = None
        \<and> open_file S ''test_data.obj'' ''wb'' = None
        \<and> close_file S = None)"
  unfolding generate_test_data_def Let_def
  by (simp split: option.split sum.split prod.split)

lemma close_iff_dumped:
  "Close \<in> set (fst (generate_test_data S)) \<longleftrightarrow>
     (\<exists>objects. Dump objects \<in> set (fst (generate_test_data S))) \<and> close_file S = None"
  using generate_test_data_cases [of S] by (elim disjE exE conjE) auto

lemma ended_iff_closed:
  "snd (generate_test_data S) = None \<longleftrightarrow> Close \<in> set (fst (generate_test_data S))"
  using generate_test_data_cases [of S] by (elim disjE exE conjE) auto

lemma opened_iff:
  "Open ''test_data.obj'' ''wb'' \<in> set (fst (generate_test_data S)) \<longleftrightarrow>
     set_option S ''mode.chained_assignment'' = None
     \<and> open_file S ''test_data.obj'' ''wb'' = None"
  using generate_test_data_cases [of S] by (elim disjE exE conjE) auto

lemma handle_events_shape:
  "fst (generate_test_data S) = []
   \<or> fst (generate_test_data S) = [Open ''test_data.obj'' ''wb'']
   \<or> (\<exists>objects. fst (generate_test_data S) = [Open ''test_data.obj'' ''wb'', Dump objects]
         \<or> fst (generate_test_data S)
             = [Open ''test_data.obj'' ''wb'', Dump objects, Close])"
  using generate_test_data_cases [of S] by (elim disjE exE conjE) auto

text \<open>
  Claim C8. The script runs one call after the other and closes its handle after use.
  The only events on a handle are, in this order, the opening of \<open>test_data.obj\<close> for
  writing, one dump, and the close; so one output handle is opened, and nothing follows
  its close. The dump happens exactly when every call before it has returned, and what
  is dumped is the list of the twenty collected objects: the six tables read and limited
  to one model and one experiment, the biomass function, and what the generator functions
  returned for them, in the order of the script. The close happens exactly when the dump
  has happened and \<open>close\<close> returns, and that is exactly when the script reaches its end
  with no exception.
\<close>

theorem generate_test_data_handle:
  "(\<forall>objects.
      Dump objects \<in> set (fst (generate_test_data S)) \<longleftrightarrow>
        set_option S ''mode.chained_assignment'' = None
        \<and> open_file S ''test_data.obj'' ''wb'' = None
        \<and> (\<exists>atomMappingReactions_read modelReaction_read atomMappingMetabolite_read
              measuredFluxes_read experimentalMS_read tracer_read
              atomMappingReactions_data_I modelReaction_data_I atomMappingMetabolite_data_I
              measuredFluxes_one_model measuredFluxes_data_I experimentalMS_data_I tracer_I
              initiated_MATLAB_script model_reactions model_rxn_ids initialized_model
              symmetrical_metabolites_script unbalanced_reactions_script reaction_parameters
              verify_and_estimate_script experimental_parameters fragments_used
              mapping_script script runner.
             read_csv S ''data_stage02_isotopomer_atomMappingReactions2.csv''
               = Inr atomMappingReactions_read
           \<and> read_csv S ''data_stage02_isotopomer_modelReactions.csv''
               = Inr modelReaction_read
           \<and> read_csv S ''data_stage02_isotopomer_atomMappingMetabolites.csv''
               = Inr atomMappingMetabolite_read
           \<and> read_csv S ''data_stage02_isotopomer_measuredFluxes.csv''
               = Inr measuredFluxes_read
           \<and> read_csv S ''data-1604345289079.csv'' = Inr experimentalMS_read
           \<and> read_csv S ''data_stage02_isotopomer_tracers.csv'' = Inr tracer_read
           \<and> limit_to_one_model S atomMappingReactions_read
                 ''mapping_id'' ''ecoli_RL2013_02'' = Inr atomMappingReactions_data_I
           \<and> limit_to_one_model S modelReaction_read ''model_id'' ''ecoli_RL2013_02''
               = Inr modelReaction_data_I
           \<and> limit_to_one_model S atomMappingMetabolite_read
                 ''mapping_id'' ''ecoli_RL2013_02'' = Inr atomMappingMetabolite_data_I
           \<and> limit_to_one_model S measuredFluxes_read ''model_id'' ''ecoli_RL2013_02''
               = Inr measuredFluxes_one_model
           \<and> limit_to_one_experiment S measuredFluxes_one_model
                 ''experiment_id'' ''WTEColi_113C80_U13C20_01'' = Inr measuredFluxes_data_I
           \<and> limit_to_one_experiment S experimentalMS_read
                 ''experiment_id'' ''WTEColi_113C80_U13C20_01'' = Inr experimentalMS_data_I
           \<and> limit_to_one_experiment S tracer_read
                 ''experiment_id'' ''WTEColi_113C80_U13C20_01'' = Inr tracer_I
           \<and> initiate_MATLAB_script S = Inr initiated_MATLAB_script
           \<and> add_reactions_to_script S modelReaction_data_I atomMappingReactions_data_I
                 biomass_function = Inr (model_reactions, model_rxn_ids)
           \<and> initialize_model S = Inr initialized_model
           \<and> symmetrical_metabolites S atomMappingMetabolite_data_I
               = Inr symmetrical_metabolites_script
           \<and> unbalanced_reactions S atomMappingMetabolite_data_I
               = Inr unbalanced_reactions_script
           \<and> add_reaction_parameters S modelReaction_data_I measuredFluxes_data_I
                 model_rxn_ids True = Inr reaction_parameters
           \<and> verify_and_estimate S = Inr verify_and_estimate_script
           \<and> add_experimental_parameters S experimentalMS_data_I tracer_I
                 measuredFluxes_data_I atomMappingMetabolite_data_I
               = Inr (experimental_parameters, fragments_used)
           \<and> mapping S experimentalMS_data_I fragments_used = Inr mapping_script
           \<and> script_generator S modelReaction_data_I atomMappingReactions_data_I
                 biomass_function atomMappingMetabolite_data_I measuredFluxes_data_I
                 experimentalMS_data_I tracer_I = Inr script
           \<and> runner_script_generator S ''TestFile'' 10 = Inr runner
           \<and> objects =
               [Obj modelReaction_data_I, Obj atomMappingReactions_data_I,
                Str biomass_function, Obj atomMappingMetabolite_data_I,
                Obj measuredFluxes_data_I, Obj experimentalMS_data_I, Obj tracer_I,
                Obj initiated_MATLAB_script, Obj model_reactions, Obj model_rxn_ids,
                Obj initialized_model, Obj symmetrical_metabolites_script,
                Obj unbalanced_reactions_script, Obj reaction_parameters,
                Obj verify_and_estimate_script, Obj experimental_parameters,
                Obj fragments_used, Obj mapping_script, Obj script, Obj runner]
           \<and> pickle_dump S objects = None))
   \<and> (Close \<in> set (fst (generate_test_data S)) \<longleftrightarrow>
        (\<exists>objects. Dump objects \<in> set (fst (generate_test_data S)))
        \<and> close_file S = None)
   \<and> (snd (generate_test_data S) = None \<longleftrightarrow> Close \<in> set (fst (generate_test_data S)))
   \<and> (Open ''test_data.obj'' ''wb'' \<in> set (fst (generate_test_data S)) \<longleftrightarrow>
        set_option S ''mode.chained_assignment'' = None
        \<and> open_file S ''test_data.obj'' ''wb'' = None)
   \<and> (fst (generate_test_data S) = []
      \<or> fst (generate_test_data S) = [Open ''test_data.obj'' ''wb'']
      \<or> (\<exists>objects.
            fst (generate_test_data S) = [Open ''test_data.obj'' ''wb'', Dump objects]
            \<or> fst (generate_test_data S)
                = [Open ''test_data.obj'' ''wb'', Dump objects, Close]))"
  apply (intro conjI allI)
  subgoal for objects
    unfolding generate_test_data_def Let_def
    by (simp split: option.split sum.split prod.split cong: conj_cong)
  subgoal by (rule close_iff_dumped)
  subgoal by (rule ended_iff_closed)
  subgoal by (rule opened_iff)
  subgoal by (rule handle_events_shape)
  done

lemma fine_script_library_calls:
  "set_option fine_script_library option = None"
  "open_file fine_script_library p mode = None"
  "read_csv fine_script_library p = Inr p"
  "limit_to_one_model fine_script_library d column v = Inr (d @ ''['' @ column @ '']'')"
  "limit_to_one_experiment fine_script_library d column v = Inr (d @ ''['' @ column @ '']'')"
  "initiate_MATLAB_script fine_script_library = Inr ''initiated''"
  "add_reactions_to_script fine_script_library a b biomass = Inr (''reactions'', ''rxn_ids'')"
  "initialize_model fine_script_library = Inr ''initialized''"
  "symmetrical_metabolites fine_script_library d = Inr ''symmetrical''"
  "unbalanced_reactions fine_script_library d = Inr ''None''"
  "add_reaction_parameters fine_script_library a b c fluxes_present = Inr ''parameters''"
  "verify_and_estimate fine_script_library = Inr ''verify''"
  "add_experimental_parameters fine_script_library a b c d
     = Inr (''experimental'', ''fragments'')"
  "mapping fine_script_library a b = Inr ''mapping''"
  "script_generator fine_script_library a b biomass c d e f = Inr ''script''"
  "runner_script_generator fine_script_library n n_estimates = Inr ''runner''"
  "pickle_dump fine_script_library objects = None"
  "close_file fine_script_library = None"
  by (simp_all add: fine_script_library_def)

theorem generate_test_data_handle_witness:
  "Dump [Obj ''data_stage02_isotopomer_modelReactions.csv[model_id]'',
         Obj ''data_stage02_isotopomer_atomMappingReactions2.csv[mapping_id]'',
         Str biomass_function,
         Obj ''data_stage02_isotopomer_atomMappingMetabolites.csv[mapping_id]'',
         Obj ''data_stage02_isotopomer_measuredFluxes.csv[model_id][experiment_id]'',
         Obj ''data-1604345289079.csv[experiment_id]'',
         Obj ''data_stage02_isotopomer_tracers.csv[experiment_id]'',
         Obj ''initiated'', Obj ''reactions'', Obj ''rxn_ids'', Obj ''initialized'',
         Obj ''symmetrical'', Obj ''None'', Obj ''parameters'', Obj ''verify'',
         Obj ''experimental'', Obj ''fragments'', Obj ''mapping'', Obj ''script'',
         Obj ''runner'']
     \<in> set (fst (generate_test_data fine_script_library))
   \<and> Close \<in> set (fst (generate_test_data fine_script_library))
   \<and> snd (generate_test_data fine_script_library) = None"
proof -
  note all = generate_test_data_handle [of fine_script_library]
  have dumped: "Dump [Obj ''data_stage02_isotopomer_modelReactions.csv[model_id]'',
         Obj ''data_stage02_isotopomer_atomMappingReactions2.csv[mapping_id]'',
         Str biomass_function,
         Obj ''data_stage02_isotopomer_atomMappingMetabolites.csv[mapping_id]'',
         Obj ''data_stage02_isotopomer_measuredFluxes.csv[model_id][experiment_id]'',
         Obj ''data-1604345289079.csv[experiment_id]'',
         Obj ''data_stage02_isotopomer_tracers.csv[experiment_id]'',
         Obj ''initiated'', Obj ''reactions'', Obj ''rxn_ids'', Obj ''initialized'',
         Obj ''symmetrical'', Obj ''None'', Obj ''parameters'', Obj ''verify'',
         Obj ''experimental'', Obj ''fragments'', Obj ''mapping'', Obj ''script'',
         Obj ''runner'']
     \<in> set (fst (generate_test_data fine_script_library))"
    unfolding all [THEN conjunct1, rule_format]
    by (simp add: fine_script_library_calls)
  then have closed: "Close \<in> set (fst (generate_test_data fine_script_library))"
    unfolding all [THEN conjunct2, THEN conjunct1]
    by (auto simp: fine_script_library_calls)
  then have "snd (generate_test_data fine_script_library) = None"
    unfolding all [THEN conjunct2, THEN conjunct2, THEN conjunct1] .
  with dumped closed show ?thesis by simp
qed

text \<open>A run that an exception ends before the close leaves the handle open.\<close>

lemma generate_test_data_leaves_handle_open:
  "generate_test_data missing_csv_library
     = ([Open ''test_data.obj'' ''wb''], Some ''FileNotFoundError'')"
  by (simp add: generate_test_data_def missing_csv_library_def fine_script_library_def)

end
